theory Spec2Isabelle
  imports Complex_Main "HOL-Library.Code_Target_Numeral"
begin

section \<open>Strings of the program\<close>

text \<open>
  A JavaScript string is a sequence of UTF-16 code units. The model works with the code
  units below 256 (Latin-1), one \<^typ>\<open>char\<close> each: addresses, topics and ids are
  ASCII. On this range \<open>String.prototype.toLowerCase\<close> maps \<open>A\<close>..\<open>Z\<close> and the
  accented capitals (192..222 but the multiplication sign 215) 32 places up and leaves
  every other code unit alone.
\<close>

definition lower_char :: "char \<Rightarrow> char" where
  "lower_char c =
     (let n = (of_char c :: nat)
      in if (65 \<le> n \<and> n \<le> 90) \<or> (192 \<le> n \<and> n \<le> 222 \<and> n \<noteq> 215)
         then char_of (n + 32) else c)"

definition toLowerCase :: "string \<Rightarrow> string" where
  "toLowerCase s = map lower_char s"

text \<open>\<open>s.slice(-n)\<close>: the last \<open>n\<close> code units of \<open>s\<close>, all of \<open>s\<close> when it is shorter.\<close>

definition slice_last :: "nat \<Rightarrow> string \<Rightarrow> string" where
  "slice_last n s = drop (length s - n) s"

text \<open>The character class \<open>[a-fA-F0-9]\<close>.\<close>

definition is_hex :: "char \<Rightarrow> bool" where
  "is_hex c =
     (let n = (of_char c :: nat)
      in (97 \<le> n \<and> n \<le> 102) \<or> (65 \<le> n \<and> n \<le> 70) \<or> (48 \<le> n \<and> n \<le> 57))"

text \<open>
  \<open>poolAddr.match(/^0x[a-fA-F0-9]{40}$/)\<close>, read as a truth value: the whole string is
  \<open>0x\<close> and then exactly forty hexadecimal digits.
\<close>

definition matches_address :: "string \<Rightarrow> bool" where
  "matches_address s =
     (take 2 s = ''0x'' \<and> length (drop 2 s) = 40 \<and> list_all is_hex (drop 2 s))"

section \<open>Receipt Log Scanner (hooks/useHajoContracts.ts)\<close>

text \<open>
  What a JavaScript operation throws. \<open>Rejected\<close> is the rejection of the promise
  returned by \<open>publicClient.getTransactionReceipt\<close>; \<open>SyntaxError\<close> is what
  \<open>request.json()\<close> rejects with when the body of a request is not a JSON text.
\<close>

datatype js_error = TypeError | RangeError | SyntaxError | Rejected

text \<open>
  The receipt is \<open>any\<close> in the source. The model gives it the shape the scanner reads,
  \<open>{logs: [{address, topics: [hex, ...]}, ...]}\<close>, and lets every position be
  \<open>null\<close> or \<open>undefined\<close> (\<open>None\<close>): the receipt, its \<open>logs\<close>, a log, its
  \<open>address\<close>, its \<open>topics\<close>, a topic. A position that is present holds a value of
  its declared type.
\<close>

record log =
  address :: "string option"
  topics :: "string option list option"

record receipt =
  logs :: "log option list option"

text \<open>
  \<open>process.env.NEXT_PUBLIC_FACTORY_ADDRESS || '0x0'\<close>: the argument is the environment
  variable, \<open>None\<close> when it is not set.
\<close>

definition FACTORY_ADDRESS :: "string option \<Rightarrow> string" where
  "FACTORY_ADDRESS env =
     (case env of None \<Rightarrow> ''0x0'' | Some a \<Rightarrow> if a = [] then ''0x0'' else a)"

text \<open>
  The body of the inner \<open>try\<close>, for one log. \<open>Inl e\<close>: the body throws \<open>e\<close>;
  \<open>Inr (Some a)\<close>: it returns \<open>a\<close> from the function; \<open>Inr None\<close>: it reaches
  \<open>continue\<close> or its own end, and the loop goes on.
  Reading a property of \<open>null\<close> or \<open>undefined\<close> throws a \<open>TypeError\<close>:
  \<open>log.address\<close> when the log is missing, \<open>.toLowerCase()\<close> when the address is,
  \<open>.length\<close> when the topics are, \<open>.slice\<close> when the second topic is.
\<close>

definition scan_log :: "string \<Rightarrow> log option \<Rightarrow> js_error + string option" where
  "scan_log factory lg =
     (case lg of
        None \<Rightarrow> Inl TypeError
      | Some l \<Rightarrow>
          (case address l of
             None \<Rightarrow> Inl TypeError
           | Some a \<Rightarrow>
               if toLowerCase a \<noteq> toLowerCase factory then Inr None
               else
                 (case topics l of
                    None \<Rightarrow> Inl TypeError
                  | Some ts \<Rightarrow>
                      if length ts \<ge> 2 then
                        (case ts ! 1 of
                           None \<Rightarrow> Inl TypeError
                         | Some t \<Rightarrow>
                             (let poolAddr = ''0x'' @ slice_last 40 t
                              in if matches_address poolAddr then Inr (Some poolAddr)
                                 else Inr None))
                      else Inr None)))"

text \<open>
  The \<open>for (const log of receipt.logs)\<close> loop: the inner \<open>catch\<close> turns a throwing
  log into \<open>continue\<close>, a returned address leaves the loop, anything else moves on to
  the next log. \<open>None\<close>: the loop ends without a return.
\<close>

fun scan_logs :: "string \<Rightarrow> log option list \<Rightarrow> string option" where
  "scan_logs factory [] = None"
| "scan_logs factory (lg # rest) =
     (case scan_log factory lg of
        Inl e \<Rightarrow> scan_logs factory rest
      | Inr (Some poolAddr) \<Rightarrow> Some poolAddr
      | Inr None \<Rightarrow> scan_logs factory rest)"

text \<open>
  The body of the outer \<open>try\<close>. Its argument is the outcome of
  \<open>await publicClient.getTransactionReceipt({hash: txHash})\<close>: \<open>Inl e\<close> when the
  fetch fails, \<open>Inr r\<close> when it yields the receipt \<open>r\<close>. \<open>Inr None\<close> as a result
  stands for leaving the \<open>try\<close> without an address.
\<close>

definition extractPoolAddress_try ::
  "string \<Rightarrow> js_error + receipt option \<Rightarrow> js_error + string option" where
  "extractPoolAddress_try factory fetched =
     (case fetched of
        Inl e \<Rightarrow> Inl e
      | Inr None \<Rightarrow> Inr None
      | Inr (Some r) \<Rightarrow>
          (case logs r of
             None \<Rightarrow> Inr None
           | Some ls \<Rightarrow> if length ls = 0 then Inr None else Inr (scan_logs factory ls)))"

text \<open>
  \<open>extractPoolAddress\<close>: the outer \<open>catch\<close> logs the error and falls through to
  \<open>return null\<close>. \<open>Inl e\<close> would be an exception reaching the caller, \<open>Inr None\<close>
  is \<open>null\<close>.
\<close>

definition extractPoolAddress ::
  "string \<Rightarrow> js_error + receipt option \<Rightarrow> js_error + string option" where
  "extractPoolAddress factory fetched =
     (case extractPoolAddress_try factory fetched of
        Inl err \<Rightarrow> Inr None
      | Inr res \<Rightarrow> Inr res)"

section \<open>Numbers and their text\<close>

text \<open>
  A non-negative integer in a template literal, \<open>`${n}`\<close>: its decimal digits. (From
  \<open>10^21\<close> on JavaScript switches to exponent notation; clock readings and array
  lengths stay far below.)
\<close>

function decimal :: "nat \<Rightarrow> string" where
  "decimal n =
     (if n < 10 then [char_of (48 + n)]
      else decimal (n div 10) @ [char_of (48 + n mod 10)])"
  by pat_completeness auto
termination
  by (relation "measure (\<lambda>n. n)") auto

declare decimal.simps [simp del]

text \<open>
  A JavaScript number, an IEEE 754 double: \<open>Num q\<close> is the finite double whose value
  is the rational \<open>q\<close>. The two zeros are both \<open>Num 0\<close>; \<open>JSON.stringify\<close>
  writes \<open>0\<close> for either.
\<close>

datatype jsnum = NaN | PosInfinity | NegInfinity | Num rat

text \<open>
  The double nearest to a rational (round to nearest, ties to even), as the Number value
  of a mathematical value is defined. A finite double is a multiple \<open>m * 2^k\<close> with
  \<open>m < 2^53\<close> and \<open>- 1074 \<le> k \<le> 971\<close>. \<open>binade a\<close> is the exponent of the power
  of two at or below \<open>a\<close>, kept between \<open>- 1022\<close> (the subnormal numbers and the
  smallest normal ones) and \<open>1024\<close>; the doubles around \<open>a\<close> are then
  \<open>2 powi (binade a - 52)\<close> apart. A magnitude that rounds to \<open>2^1024\<close> or beyond
  is an infinity.
\<close>

fun binade_from :: "nat \<Rightarrow> rat \<Rightarrow> int" where
  "binade_from 0 a = - 1022"
| "binade_from (Suc n) a =
     (if 2 powi (int (Suc n) - 1022) \<le> a then int (Suc n) - 1022 else binade_from n a)"

definition binade :: "rat \<Rightarrow> int" where
  "binade a = binade_from 2046 a"

definition round_half_even :: "rat \<Rightarrow> int" where
  "round_half_even x =
     (let f = \<lfloor>x\<rfloor>; d = x - of_int f
      in if d < 1 / 2 then f else if 1 / 2 < d then f + 1 else if even f then f else f + 1)"

definition to_double :: "rat \<Rightarrow> jsnum" where
  "to_double q =
     (let a = \<bar>q\<bar>;
          u = 2 powi (binade a - 52);
          r = of_int (round_half_even (a / u)) * u
      in if 2 powi 1024 \<le> r then (if 0 < q then PosInfinity else NegInfinity)
         else Num (if 0 < q then r else - r))"

definition is_digit :: "char \<Rightarrow> bool" where
  "is_digit c = (48 \<le> (of_char c :: nat) \<and> (of_char c :: nat) \<le> 57)"

definition digits_value :: "string \<Rightarrow> nat" where
  "digits_value ds = foldl (\<lambda>v c. 10 * v + ((of_char c :: nat) - 48)) 0 ds"

text \<open>White space and line terminators of ECMAScript among the code units below 256.\<close>

definition is_whitespace :: "char \<Rightarrow> bool" where
  "is_whitespace c =
     (let n = (of_char c :: nat)
      in (9 \<le> n \<and> n \<le> 13) \<or> n = 32 \<or> n = 160)"

definition scale10 :: "rat \<Rightarrow> int \<Rightarrow> rat" where
  "scale10 m e = (if 0 \<le> e then m * 10 ^ nat e else m / 10 ^ nat (- e))"

text \<open>
  The value of an \<open>ExponentPart\<close> (\<open>e\<close> or \<open>E\<close>, an optional sign, digits) at the
  head of the text; 0 when there is none, also when no digit follows the \<open>e\<close>.
\<close>

definition exponent_part :: "string \<Rightarrow> int" where
  "exponent_part r =
     (case r of
        [] \<Rightarrow> 0
      | c # r1 \<Rightarrow>
          if c = CHR ''e'' \<or> c = CHR ''E'' then
            (case r1 of
               [] \<Rightarrow> 0
             | sg # r2 \<Rightarrow>
                 if sg = CHR ''+'' then int (digits_value (takeWhile is_digit r2))
                 else if sg = CHR ''-'' then - int (digits_value (takeWhile is_digit r2))
                 else int (digits_value (takeWhile is_digit r1)))
          else 0)"

text \<open>
  The longest prefix that is a \<open>StrUnsignedDecimalLiteral\<close> of ECMA-262:
  \<open>Infinity\<close>, or digits with an optional fraction and exponent, or a fraction with
  an optional exponent; \<open>NaN\<close> when the text starts with none of them. The result is
  the double nearest to the decimal value of that prefix (ECMA-262 lets an engine round
  after the twentieth significant digit; V8, the engine of Node.js, reads every digit).
\<close>

definition unsigned_literal :: "string \<Rightarrow> jsnum" where
  "unsigned_literal s =
     (if take 8 s = ''Infinity'' then PosInfinity
      else
        (let ip = takeWhile is_digit s;
             r1 = dropWhile is_digit s;
             fp = (case r1 of [] \<Rightarrow> [] | c # r \<Rightarrow>
                     if c = CHR ''.'' then takeWhile is_digit r else []);
             r2 = (case r1 of [] \<Rightarrow> [] | c # r \<Rightarrow>
                     if c = CHR ''.'' then dropWhile is_digit r else r1)
         in if ip = [] \<and> fp = [] then NaN
            else to_double (scale10 (of_nat (digits_value (ip @ fp)))
                              (exponent_part r2 - int (length fp)))))"

definition negate :: "jsnum \<Rightarrow> jsnum" where
  "negate x =
     (case x of NaN \<Rightarrow> NaN | PosInfinity \<Rightarrow> NegInfinity | NegInfinity \<Rightarrow> PosInfinity
      | Num q \<Rightarrow> Num (- q))"

text \<open>
  The built-in \<open>parseFloat\<close> on a string: leading white space is dropped, then the
  longest prefix that is a signed decimal literal is read; the rest is ignored.
\<close>

definition parseFloat :: "string \<Rightarrow> jsnum" where
  "parseFloat s =
     (case dropWhile is_whitespace s of
        [] \<Rightarrow> NaN
      | c # r \<Rightarrow>
          if c = CHR ''-'' then negate (unsigned_literal r)
          else if c = CHR ''+'' then unsigned_literal r
          else unsigned_literal (c # r))"

text \<open>
  What \<open>JSON.stringify\<close> writes for a number and \<open>JSON.parse\<close> reads back:
  \<open>NaN\<close> and the infinities become \<open>null\<close> (\<open>None\<close>); a finite double is
  written with enough digits to be read back as the same double.
\<close>

definition JSON_number :: "jsnum \<Rightarrow> rat option" where
  "JSON_number x = (case x of Num q \<Rightarrow> Some q | _ \<Rightarrow> None)"

text \<open>
  The string \<open>new Date(t).toISOString()\<close> is modelled by the time value \<open>t\<close> it
  prints (milliseconds since the epoch): \<open>ISO t\<close>. A \<open>Date\<close> whose time value is
  beyond \<open>8.64e15\<close> in magnitude is invalid, and \<open>toISOString\<close> throws a
  \<open>RangeError\<close> on it.
\<close>

datatype iso_string = ISO int

definition toISOString :: "int \<Rightarrow> js_error + iso_string" where
  "toISOString t = (if \<bar>t\<bar> \<le> 8640000000000000 then Inr (ISO t) else Inl RangeError)"

section \<open>Pool Record Manager (app/api/pools/route.ts)\<close>

subsection \<open>Records and the file store\<close>

text \<open>
  The interfaces \<open>Pool\<close> and \<open>Member\<close> and the activity object literal, with a
  prefix on every field name (\<open>id\<close> is the identity of HOL). A field that can be
  \<open>null\<close> or left out of the JSON text is an \<open>option\<close>.
\<close>

record pool =
  p_id :: string
  p_name :: string
  p_description :: "string option"
  p_type :: string
  p_status :: string
  p_creator_address :: string
  p_contract_address :: string
  p_token_address :: string
  p_members_count :: nat
  p_total_saved :: rat
  p_progress :: rat
  p_frequency :: "string option"
  p_next_payout :: "iso_string option"
  p_created_at :: iso_string
  p_tx_hash :: "string option"

text \<open>
  \<open>m_contribution_amount\<close> is the number as the members file holds it: the value of
  the double \<open>parseFloat\<close> returned, after \<open>JSON.stringify\<close> (\<open>None\<close> is
  \<open>null\<close>).
\<close>

record member =
  m_id :: string
  m_member_address :: string
  m_contribution_amount :: "rat option"
  m_status :: string
  m_joined_at :: iso_string

record activity =
  a_id :: string
  a_pool_id :: string
  a_activity_type :: string
  a_user_address :: string
  a_amount :: "rat option"
  a_description :: string
  a_created_at :: iso_string
  a_tx_hash :: "string option"

text \<open>
  The directory \<open>.data\<close> and its three files. A file is \<open>None\<close> while it does not
  exist (or cannot be read or parsed); otherwise it holds the collection that was
  serialised into it. The members file is a JSON object from pool ids to member lists.
  Writing a file and creating the directory are taken to succeed.
\<close>

record store =
  data_dir :: bool
  pools_file :: "pool list option"
  activities_file :: "activity list option"
  members_file :: "(string \<rightharpoonup> member list) option"

definition ensureDataDir :: "store \<Rightarrow> store" where
  "ensureDataDir st = (if data_dir st then st else st\<lparr>data_dir := True\<rparr>)"

text \<open>\<open>readDataFile\<close>: a failed read is caught and gives the default value.\<close>

definition readDataFile :: "'a option \<Rightarrow> 'a \<Rightarrow> 'a" where
  "readDataFile file defaultValue = (case file of None \<Rightarrow> defaultValue | Some d \<Rightarrow> d)"

text \<open>
  \<open>generatePoolId\<close>. \<open>now\<close> is \<open>Date.now()\<close>; \<open>rnd\<close> is the text
  \<open>Math.random().toString(36)\<close>, of which \<open>substr(2, 9)\<close> keeps at most nine code
  units after the first two.
\<close>

definition substr :: "nat \<Rightarrow> nat \<Rightarrow> string \<Rightarrow> string" where
  "substr start len s = take len (drop start s)"

definition generatePoolId :: "nat \<Rightarrow> string \<Rightarrow> string" where
  "generatePoolId now rnd = ''pool_'' @ decimal now @ ''_'' @ substr 2 9 rnd"

text \<open>
  The members file is parsed into a plain object, and \<open>poolMembersData[poolId]\<close>
  reads a property of it: its own entry for the id when it has one, and otherwise what
  the object inherits from \<open>Object.prototype\<close> under that name. These are the names
  \<open>Object.prototype\<close> has in Node.js; each holds a function, but \<open>__proto__\<close>,
  which gives the prototype object itself. All of them are truthy.
\<close>

definition Object_prototype :: "string list" where
  "Object_prototype =
     [''constructor'', ''__defineGetter__'', ''__defineSetter__'', ''hasOwnProperty'',
      ''__lookupGetter__'', ''__lookupSetter__'', ''isPrototypeOf'',
      ''propertyIsEnumerable'', ''toString'', ''valueOf'', ''__proto__'',
      ''toLocaleString'']"

text \<open>
  The value of \<open>poolMembersData[poolId] || []\<close>: a member list, or the inherited
  property of the given name. (In the JSON text of the response an inherited function
  is left out, and the prototype object is written \<open>{}\<close>.)
\<close>

datatype members_value = MemberList "member list" | Inherited string

text \<open>The body of a response; a response is a status and a body.\<close>

datatype json_body =
    PoolWithDetails pool "activity list" members_value
  | Pools "pool list"
  | CreatedPool pool
  | ErrorMsg string

type_synonym response = "nat \<times> json_body"

subsection \<open>GET\<close>

text \<open>
  \<open>searchParams.get('id')\<close> and \<open>searchParams.get('creator')\<close>: \<open>None\<close> is
  \<open>null\<close>, the parameter is not in the URL.
\<close>

record search_params =
  poolId :: "string option"
  creator :: "string option"

text \<open>
  A string or \<open>null\<close> in a condition: \<open>null\<close> and the empty string are falsy
  (\<open>None\<close>), any other string is truthy.
\<close>

definition truthy :: "string option \<Rightarrow> string option" where
  "truthy x = (case x of None \<Rightarrow> None | Some s \<Rightarrow> if s = [] then None else Some s)"

definition GET :: "search_params \<Rightarrow> store \<Rightarrow> response \<times> store" where
  "GET rq st =
     (let st0 = ensureDataDir st;
          poolsData = readDataFile (pools_file st0) [];
          poolActivityData = readDataFile (activities_file st0) [];
          poolMembersData = readDataFile (members_file st0) Map.empty
      in case truthy (poolId rq) of
           Some pid \<Rightarrow>
             (case find (\<lambda>p. p_id p = pid) poolsData of
                None \<Rightarrow> ((404, ErrorMsg ''Pool not found''), st0)
              | Some pl \<Rightarrow>
                  ((200, PoolWithDetails pl
                           (filter (\<lambda>a. a_pool_id a = pid) poolActivityData)
                           (case poolMembersData pid of
                              Some ms \<Rightarrow> MemberList ms
                            | None \<Rightarrow>
                                if pid \<in> set Object_prototype then Inherited pid
                                else MemberList [])),
                   st0))
         | None \<Rightarrow>
             (case truthy (creator rq) of
                Some cr \<Rightarrow>
                  ((200, Pools (filter (\<lambda>p. toLowerCase (p_creator_address p) = toLowerCase cr)
                                  poolsData)),
                   st0)
              | None \<Rightarrow> ((200, Pools poolsData), st0)))"

subsection \<open>POST\<close>

text \<open>
  The fields that \<open>POST\<close> takes out of the JSON body of a create request, at the
  types the client sends: a string field is \<open>None\<close> when it is left out or
  \<open>null\<close>, \<open>members\<close> is a list of addresses, \<open>roundDuration\<close> a whole number
  of seconds. A body that is a JSON value without these fields (an empty object, a
  number, a string, an array) has \<open>None\<close> in all of them.
\<close>

record create_body =
  name :: "string option"
  description :: "string option"
  poolType :: "string option"
  creatorAddress :: "string option"
  poolAddress :: "string option"
  tokenAddress :: "string option"
  members :: "string list option"
  contributionAmount :: "string option"
  roundDuration :: "int option"
  frequency :: "string option"
  txHash :: "string option"

text \<open>
  What a request reads from outside: the system clock, once per \<open>Date.now()\<close> and
  \<open>new Date()\<close> (\<open>clock e k\<close> is the reading of the \<open>k\<close>-th of them, in
  milliseconds), the random draw as the text \<open>Math.random().toString(36)\<close>, and the
  environment variable with the default token address.
\<close>

record env =
  clock :: "nat \<Rightarrow> nat"
  random_text :: string
  NEXT_PUBLIC_TOKEN_ADDRESS :: "string option"

text \<open>\<open>x || d\<close> on an optional string.\<close>

definition or_default :: "string option \<Rightarrow> string \<Rightarrow> string" where
  "or_default x d = (case truthy x of None \<Rightarrow> d | Some s \<Rightarrow> s)"

text \<open>
  The object literal \<open>newPool\<close>. The clock is read for the id (reading 0), for
  \<open>next_payout\<close> (reading 1) and for \<open>created_at\<close> (reading 2). \<open>toISOString\<close>
  throws when \<open>roundDuration\<close> moves the payout out of the range of \<open>Date\<close>.
\<close>

definition newPool ::
  "env \<Rightarrow> create_body \<Rightarrow> string \<Rightarrow> string \<Rightarrow> string \<Rightarrow> js_error + pool" where
  "newPool e b nm ca pa =
     (case toISOString
             (int (clock e 1) +
              (case roundDuration b of None \<Rightarrow> 604800
               | Some d \<Rightarrow> if d = 0 then 604800 else d) * 1000) of
        Inl err \<Rightarrow> Inl err
      | Inr payout \<Rightarrow>
          Inr \<lparr> p_id = generatePoolId (clock e 0) (random_text e),
                p_name = nm,
                p_description = description b,
                p_type = or_default (poolType b) ''rotational'',
                p_status = ''active'',
                p_creator_address = toLowerCase ca,
                p_contract_address = pa,
                p_token_address =
                  or_default (tokenAddress b) (or_default (NEXT_PUBLIC_TOKEN_ADDRESS e) []),
                p_members_count = (case members b of None \<Rightarrow> 0 | Some ms \<Rightarrow> length ms),
                p_total_saved = 0,
                p_progress = 0,
                p_frequency = Some (or_default (frequency b) ''weekly''),
                p_next_payout = Some payout,
                p_created_at = ISO (int (clock e 2)),
                p_tx_hash = truthy (txHash b) \<rparr>)"

text \<open>
  \<open>members.map((memberAddress, index) => ...)\<close>: one entry per address; the entry of
  index \<open>i\<close> reads the clock as reading \<open>3 + i\<close>.
\<close>

definition memberEntries :: "env \<Rightarrow> create_body \<Rightarrow> pool \<Rightarrow> string list \<Rightarrow> member list" where
  "memberEntries e b np ms =
     map (\<lambda>(index, memberAddress).
            \<lparr> m_id = ''member_'' @ p_id np @ ''_'' @ decimal index,
              m_member_address = toLowerCase memberAddress,
              m_contribution_amount =
                JSON_number (parseFloat (or_default (contributionAmount b) ''0'')),
              m_status = ''pending'',
              m_joined_at = ISO (int (clock e (3 + index))) \<rparr>)
         (enumerate 0 ms)"

text \<open>The initial activity entry; its clock readings follow those of the members.\<close>

definition createdActivity ::
  "env \<Rightarrow> create_body \<Rightarrow> pool \<Rightarrow> string \<Rightarrow> string list \<Rightarrow> activity" where
  "createdActivity e b np ca ms =
     \<lparr> a_id = ''activity_'' @ decimal (clock e (3 + length ms)),
       a_pool_id = p_id np,
       a_activity_type = ''created'',
       a_user_address = ca,
       a_amount = None,
       a_description = ''Pool created with '' @ decimal (length ms) @ '' members'',
       a_created_at = ISO (int (clock e (4 + length ms))),
       a_tx_hash = txHash b \<rparr>"

text \<open>
  \<open>POST\<close>. Its second argument is the outcome of \<open>await request.json()\<close>:
  \<open>Inl err\<close> when the promise rejects (the body is empty or is not a JSON text),
  \<open>Inr None\<close> when the body is the JSON value \<open>null\<close>, of which the destructuring
  assignment throws a \<open>TypeError\<close>, and \<open>Inr (Some b)\<close> for any other body, with
  the fields \<open>b\<close> taken out of it. The data directory is made before the body is read.
  The validation answers 400 before any file is read. An exception on the way (a body
  that cannot be read, the \<open>RangeError\<close> of \<open>newPool\<close>) is caught and answered
  with 500; the three files are written only after every record has been built.
\<close>

definition POST :: "env \<Rightarrow> js_error + create_body option \<Rightarrow> store \<Rightarrow> response \<times> store" where
  "POST e body st =
     (let st0 = ensureDataDir st
      in case body of
           Inl err \<Rightarrow> ((500, ErrorMsg ''Internal server error''), st0)
         | Inr None \<Rightarrow> ((500, ErrorMsg ''Internal server error''), st0)
         | Inr (Some b) \<Rightarrow>
             (case (truthy (name b), truthy (creatorAddress b), truthy (poolAddress b)) of
                (Some nm, Some ca, Some pa) \<Rightarrow>
                  (let poolsData = readDataFile (pools_file st0) [];
                       poolActivityData = readDataFile (activities_file st0) [];
                       poolMembersData = readDataFile (members_file st0) Map.empty
                   in case newPool e b nm ca pa of
                        Inl err \<Rightarrow> ((500, ErrorMsg ''Internal server error''), st0)
                      | Inr np \<Rightarrow>
                          (let withMembers =
                                 (case members b of None \<Rightarrow> False | Some ms \<Rightarrow> length ms > 0);
                               ms = (case members b of None \<Rightarrow> [] | Some l \<Rightarrow> l);
                               poolMembersData' =
                                 (if withMembers
                                  then poolMembersData(p_id np \<mapsto> memberEntries e b np ms)
                                  else poolMembersData);
                               poolActivityData' =
                                 (if withMembers
                                  then poolActivityData @ [createdActivity e b np ca ms]
                                  else poolActivityData)
                           in ((201, CreatedPool np),
                               st0\<lparr> pools_file := Some (poolsData @ [np]),
                                    activities_file := Some poolActivityData',
                                    members_file := Some poolMembersData' \<rparr>)))
              | _ \<Rightarrow> ((400, ErrorMsg ''Missing required fields''), st0)))"

section \<open>The Scanner in the words of the specification\<close>

text \<open>
  The specification's reading of one log, for comparison with \<open>scan_log\<close>: a log
  counts when it was emitted by the factory (addresses compared without regard to
  case), has at least two topics, and \<open>0x\<close> with the last forty characters of the
  second topic matches the strict pattern of a 20-byte address.
\<close>

definition emitted_by_factory :: "string \<Rightarrow> log option \<Rightarrow> bool" where
  "emitted_by_factory factory lg =
     (case lg of
        None \<Rightarrow> False
      | Some l \<Rightarrow>
          (case address l of
             None \<Rightarrow> False
           | Some a \<Rightarrow> toLowerCase a = toLowerCase factory))"

definition second_topic :: "log option \<Rightarrow> string option" where
  "second_topic lg =
     (case lg of
        None \<Rightarrow> None
      | Some l \<Rightarrow>
          (case topics l of
             None \<Rightarrow> None
           | Some ts \<Rightarrow> if 2 \<le> length ts then ts ! 1 else None))"

definition valid_match :: "string \<Rightarrow> log option \<Rightarrow> string option" where
  "valid_match factory lg =
     (if emitted_by_factory factory lg then
        (case second_topic lg of
           None \<Rightarrow> None
         | Some t \<Rightarrow>
             if matches_address (''0x'' @ slice_last 40 t)
             then Some (''0x'' @ slice_last 40 t) else None)
      else None)"

text \<open>First match wins: the address of the first log, in receipt order, that counts.\<close>

definition first_match :: "string \<Rightarrow> log option list \<Rightarrow> string option" where
  "first_match factory ls =
     (case find (\<lambda>lg. valid_match factory lg \<noteq> None) ls of
        None \<Rightarrow> None
      | Some lg \<Rightarrow> valid_match factory lg)"

section \<open>Amounts written with a minus sign\<close>

text \<open>
  The text starts, after leading white space, with a minus sign: the one way for
  \<open>parseFloat\<close> to return a negative number.
\<close>

definition leading_minus :: "string \<Rightarrow> bool" where
  "leading_minus s =
     (case dropWhile is_whitespace s of [] \<Rightarrow> False | c # r \<Rightarrow> c = CHR ''-'')"

section \<open>Example inputs\<close>

text \<open>
  A receipt with five logs: a \<open>null\<close> entry, a log of another contract whose topics
  would match, a factory log without topics, the first factory log that matches, and a
  later factory log that matches too.
\<close>

definition example_factory :: string where
  "example_factory = FACTORY_ADDRESS (Some ''0xFAC'')"

definition foreign_log :: log where
  "foreign_log =
     \<lparr> address = Some ''0xbeef'',
       topics = Some [Some ''0xsig'',
         Some ''0x0000000000000000000000009999999999999999999999999999999999999999''] \<rparr>"

definition broken_log :: log where
  "broken_log = \<lparr> address = Some ''0xfac'', topics = None \<rparr>"

definition first_factory_log :: log where
  "first_factory_log =
     \<lparr> address = Some ''0xfac'',
       topics = Some [Some ''0xsig'',
         Some ''0x0000000000000000000000001111111111222222222233333333334444444444'',
         Some ''0x000000000000000000000000cccccccccccccccccccccccccccccccccccccccc''] \<rparr>"

definition later_factory_log :: log where
  "later_factory_log =
     \<lparr> address = Some ''0xFAC'',
       topics = Some [Some ''0xsig'',
         Some ''0x000000000000000000000000aaaaaaaaaabbbbbbbbbbccccccccccdddddddddd''] \<rparr>"

definition example_receipt :: receipt where
  "example_receipt =
     \<lparr> logs = Some ([None, Some foreign_log, Some broken_log]
                    @ Some first_factory_log # [Some later_factory_log]) \<rparr>"

text \<open>
  A clock that advances one millisecond per reading, a random draw, and the create
  request of the specification's examples, without members and with two members.
\<close>

definition example_env :: env where
  "example_env =
     \<lparr> clock = (\<lambda>k. 1700000000000 + k),
       random_text = ''0.4fzyo82mvyr'',
       NEXT_PUBLIC_TOKEN_ADDRESS = Some ''0x70CE'' \<rparr>"

definition example_body :: create_body where
  "example_body =
     \<lparr> name = Some ''Test'', description = None, poolType = None,
       creatorAddress = Some ''0xABC'', poolAddress = Some ''0xDEF'',
       tokenAddress = None, members = None, contributionAmount = None,
       roundDuration = None, frequency = None, txHash = None \<rparr>"

definition example_body_members :: create_body where
  "example_body_members =
     example_body\<lparr> members := Some [''0xA1'', ''0xB2''],
                    contributionAmount := Some ''12.5'',
                    txHash := Some ''0x7a'' \<rparr>"

definition empty_store :: store where
  "empty_store =
     \<lparr> data_dir = False, pools_file = None, activities_file = None, members_file = None \<rparr>"

text \<open>The store after the request with two members has been served on the empty store.\<close>

definition example_store :: store where
  "example_store = snd (POST example_env (Inr (Some example_body_members)) empty_store)"

text \<open>The pool record that request creates.\<close>

definition example_pool :: pool where
  "example_pool =
     \<lparr> p_id = ''pool_1700000000000_4fzyo82mv'', p_name = ''Test'', p_description = None,
       p_type = ''rotational'', p_status = ''active'', p_creator_address = ''0xabc'',
       p_contract_address = ''0xDEF'', p_token_address = ''0x70CE'', p_members_count = 2,
       p_total_saved = 0, p_progress = 0, p_frequency = Some ''weekly'',
       p_next_payout = Some (ISO 1700604800001), p_created_at = ISO 1700000000002,
       p_tx_hash = Some ''0x7a'' \<rparr>"

section \<open>The Scanner: first match, no exception, no factory log\<close>

lemma scan_log_valid_match:
  "(case scan_log factory lg of Inl e \<Rightarrow> None | Inr res \<Rightarrow> res) = valid_match factory lg"
  by (simp add: scan_log_def valid_match_def emitted_by_factory_def second_topic_def Let_def
           split: option.splits)

lemma scan_logs_first_match: "scan_logs factory ls = first_match factory ls"
proof (induction ls)
  case Nil
  show ?case by (simp add: first_match_def)
next
  case (Cons lg rest)
  have vm: "(case scan_log factory lg of Inl e \<Rightarrow> None | Inr res \<Rightarrow> res) = valid_match factory lg"
    by (rule scan_log_valid_match)
  show ?case
  proof (cases "valid_match factory lg")
    case None
    with vm have "scan_logs factory (lg # rest) = scan_logs factory rest"
      by (simp split: sum.splits option.splits)
    with None Cons.IH show ?thesis by (simp add: first_match_def)
  next
    case (Some a)
    with vm have "scan_logs factory (lg # rest) = Some a"
      by (simp split: sum.splits option.splits)
    with Some show ?thesis by (simp add: first_match_def)
  qed
qed

lemma first_match_append:
  "first_match factory (pre @ post) =
     (case first_match factory pre of None \<Rightarrow> first_match factory post | Some a \<Rightarrow> Some a)"
  by (induction pre) (auto simp: first_match_def split: option.splits)

lemma first_match_Cons_None:
  "valid_match factory lg = None \<Longrightarrow> first_match factory (lg # post) = first_match factory post"
  by (simp add: first_match_def)

lemma first_match_skip:
  "valid_match factory lg = None \<Longrightarrow>
   first_match factory (pre @ lg # post) = first_match factory (pre @ post)"
  by (cases "first_match factory pre") (simp_all add: first_match_append first_match_Cons_None)

lemma first_match_none: "first_match factory [] = None"
  by (simp add: first_match_def)

lemma first_match_all_none:
  "\<forall>lg \<in> set ls. valid_match factory lg = None \<Longrightarrow> first_match factory ls = None"
  by (induction ls) (auto simp: first_match_def)

lemma extractPoolAddress_receipt:
  "extractPoolAddress factory (Inr (Some r)) =
     Inr (case logs r of None \<Rightarrow> None | Some ls \<Rightarrow> first_match factory ls)"
  by (simp add: extractPoolAddress_def extractPoolAddress_try_def scan_logs_first_match
        first_match_none split: option.splits)

lemma scan_log_throws_valid_match:
  "scan_log factory lg = Inl err \<Longrightarrow> valid_match factory lg = None"
  using scan_log_valid_match [of factory lg] by simp

lemma differing_address_valid_match:
  "address l = Some a \<Longrightarrow> toLowerCase a \<noteq> toLowerCase factory \<Longrightarrow>
   valid_match factory (Some l) = None"
  by (simp add: valid_match_def emitted_by_factory_def)

lemma not_emitted_valid_match:
  "\<not> emitted_by_factory factory lg \<Longrightarrow> valid_match factory lg = None"
  by (simp add: valid_match_def)

text \<open>
  C1. On every receipt the Scanner returns what the first log, in receipt order, yields
  that was emitted by the factory (addresses compared without regard to case), has at
  least two topics and whose second topic gives, as \<open>0x\<close> and its last forty
  characters, a string of the strict 20-byte pattern. A log with a differing address
  can be taken out of the receipt without changing the result, and the first such log
  decides whatever the logs after it hold.
\<close>

theorem extractPoolAddress_first_match:
  "extractPoolAddress factory (Inr (Some r)) =
     Inr (case logs r of None \<Rightarrow> None | Some ls \<Rightarrow> first_match factory ls)
   \<and> (\<forall>pre l post a.
         logs r = Some (pre @ Some l # post) \<and> address l = Some a \<and>
         toLowerCase a \<noteq> toLowerCase factory \<longrightarrow>
         extractPoolAddress factory (Inr (Some r)) =
         extractPoolAddress factory (Inr (Some (r\<lparr>logs := Some (pre @ post)\<rparr>))))
   \<and> (\<forall>pre l post a ts t.
         logs r = Some (pre @ Some l # post) \<and>
         (\<forall>lg \<in> set pre. valid_match factory lg = None) \<and>
         address l = Some a \<and> toLowerCase a = toLowerCase factory \<and>
         topics l = Some ts \<and> 2 \<le> length ts \<and> ts ! 1 = Some t \<and>
         matches_address (''0x'' @ slice_last 40 t) \<longrightarrow>
         extractPoolAddress factory (Inr (Some r)) = Inr (Some (''0x'' @ slice_last 40 t)))"
proof (intro conjI allI impI)
  show "extractPoolAddress factory (Inr (Some r)) =
     Inr (case logs r of None \<Rightarrow> None | Some ls \<Rightarrow> first_match factory ls)"
    by (rule extractPoolAddress_receipt)
next
  fix pre l post a
  assume h: "logs r = Some (pre @ Some l # post) \<and> address l = Some a \<and>
         toLowerCase a \<noteq> toLowerCase factory"
  then have "valid_match factory (Some l) = None"
    by (simp add: differing_address_valid_match)
  then have "first_match factory (pre @ Some l # post) = first_match factory (pre @ post)"
    by (rule first_match_skip)
  with h show "extractPoolAddress factory (Inr (Some r)) =
         extractPoolAddress factory (Inr (Some (r\<lparr>logs := Some (pre @ post)\<rparr>)))"
    by (simp add: extractPoolAddress_receipt)
next
  fix pre l post a ts t
  assume h: "logs r = Some (pre @ Some l # post) \<and>
         (\<forall>lg \<in> set pre. valid_match factory lg = None) \<and>
         address l = Some a \<and> toLowerCase a = toLowerCase factory \<and>
         topics l = Some ts \<and> 2 \<le> length ts \<and> ts ! 1 = Some t \<and>
         matches_address (''0x'' @ slice_last 40 t)"
  then have pre: "first_match factory pre = None"
    by (simp add: first_match_all_none)
  from h have "valid_match factory (Some l) = Some (''0x'' @ slice_last 40 t)"
    by (simp add: valid_match_def emitted_by_factory_def second_topic_def)
  then have "first_match factory (Some l # post) = Some (''0x'' @ slice_last 40 t)"
    by (simp add: first_match_def)
  with pre have "first_match factory (pre @ Some l # post) = Some (''0x'' @ slice_last 40 t)"
    by (simp add: first_match_append)
  with h show "extractPoolAddress factory (Inr (Some r)) = Inr (Some (''0x'' @ slice_last 40 t))"
    by (simp add: extractPoolAddress_receipt)
qed

text \<open>
  The example receipt: three logs that do not count, then the first factory log, whose
  second topic decides, although the last log matches as well.
\<close>

theorem extractPoolAddress_first_match_witness:
  "logs example_receipt =
     Some ([None, Some foreign_log, Some broken_log]
           @ Some first_factory_log # [Some later_factory_log])
   \<and> list_all (\<lambda>lg. valid_match example_factory lg = None)
        [None, Some foreign_log, Some broken_log]
   \<and> valid_match example_factory (Some later_factory_log)
       = Some ''0xaaaaaaaaaabbbbbbbbbbccccccccccdddddddddd''
   \<and> address first_factory_log = Some ''0xfac''
   \<and> toLowerCase ''0xfac'' = toLowerCase example_factory
   \<and> topics first_factory_log =
       Some [Some ''0xsig'',
         Some ''0x0000000000000000000000001111111111222222222233333333334444444444'',
         Some ''0x000000000000000000000000cccccccccccccccccccccccccccccccccccccccc'']
   \<and> matches_address (''0x'' @ slice_last 40
         ''0x0000000000000000000000001111111111222222222233333333334444444444'')
   \<and> extractPoolAddress example_factory (Inr (Some example_receipt))
       = Inr (Some ''0x1111111111222222222233333333334444444444'')"
proof -
  let ?t = "''0x0000000000000000000000001111111111222222222233333333334444444444''"
  let ?ts = "[Some ''0xsig'', Some ?t,
     Some ''0x000000000000000000000000cccccccccccccccccccccccccccccccccccccccc'']"
  have h0: "logs example_receipt =
     Some ([None, Some foreign_log, Some broken_log]
           @ Some first_factory_log # [Some later_factory_log])"
    by (simp add: example_receipt_def)
  have h1: "list_all (\<lambda>lg. valid_match example_factory lg = None)
        [None, Some foreign_log, Some broken_log]"
    by code_simp
  have h2: "valid_match example_factory (Some later_factory_log)
       = Some ''0xaaaaaaaaaabbbbbbbbbbccccccccccdddddddddd''"
    by code_simp
  have h3: "address first_factory_log = Some ''0xfac''"
    by (simp add: first_factory_log_def)
  have h4: "toLowerCase ''0xfac'' = toLowerCase example_factory"
    by code_simp
  have h5: "topics first_factory_log = Some ?ts"
    by (simp add: first_factory_log_def)
  have h6: "matches_address (''0x'' @ slice_last 40 ?t)"
    by code_simp
  have h7: "''0x'' @ slice_last 40 ?t = ''0x1111111111222222222233333333334444444444''"
    by code_simp
  from h1 have h1': "\<forall>lg \<in> set [None, Some foreign_log, Some broken_log].
      valid_match example_factory lg = None"
    by (simp only: list_all_iff)
  have all: "logs example_receipt =
       Some ([None, Some foreign_log, Some broken_log]
             @ Some first_factory_log # [Some later_factory_log]) \<and>
     (\<forall>lg \<in> set [None, Some foreign_log, Some broken_log].
        valid_match example_factory lg = None) \<and>
     address first_factory_log = Some ''0xfac'' \<and>
     toLowerCase ''0xfac'' = toLowerCase example_factory \<and>
     topics first_factory_log = Some ?ts \<and> 2 \<le> length ?ts \<and> ?ts ! 1 = Some ?t \<and>
     matches_address (''0x'' @ slice_last 40 ?t)"
    using h0 h1' h3 h4 h5 h6 by simp
  have "\<forall>pre l post a ts t.
         logs example_receipt = Some (pre @ Some l # post) \<and>
         (\<forall>lg \<in> set pre. valid_match example_factory lg = None) \<and>
         address l = Some a \<and> toLowerCase a = toLowerCase example_factory \<and>
         topics l = Some ts \<and> 2 \<le> length ts \<and> ts ! 1 = Some t \<and>
         matches_address (''0x'' @ slice_last 40 t) \<longrightarrow>
         extractPoolAddress example_factory (Inr (Some example_receipt))
           = Inr (Some (''0x'' @ slice_last 40 t))"
    using extractPoolAddress_first_match [of example_factory example_receipt] by blast
  with all have "extractPoolAddress example_factory (Inr (Some example_receipt))
           = Inr (Some (''0x'' @ slice_last 40 ?t))"
    by blast
  with h0 h1 h2 h3 h4 h5 h6 h7 show ?thesis by simp
qed

text \<open>
  C3. The Scanner never throws to its caller: whatever the fetch gives, its result is a
  value (an address or \<open>null\<close>); a failing fetch gives \<open>null\<close>; and a log whose
  extraction throws is passed over, the scan going on with the logs after it as if the
  log were not in the receipt.
\<close>

theorem extractPoolAddress_never_throws:
  "(\<exists>res. extractPoolAddress factory fetched = Inr res)
   \<and> extractPoolAddress factory (Inl err) = Inr None
   \<and> (\<forall>pre lg post e.
         logs r = Some (pre @ lg # post) \<and> scan_log factory lg = Inl e \<longrightarrow>
         scan_logs factory (pre @ lg # post) = scan_logs factory (pre @ post) \<and>
         extractPoolAddress factory (Inr (Some r)) =
         extractPoolAddress factory (Inr (Some (r\<lparr>logs := Some (pre @ post)\<rparr>))))"
proof (intro conjI allI impI)
  show "\<exists>res. extractPoolAddress factory fetched = Inr res"
    by (simp add: extractPoolAddress_def split: sum.splits)
next
  show "extractPoolAddress factory (Inl err) = Inr None"
    by (simp add: extractPoolAddress_def extractPoolAddress_try_def)
next
  fix pre lg post e
  assume h: "logs r = Some (pre @ lg # post) \<and> scan_log factory lg = Inl e"
  then have "valid_match factory lg = None"
    by (simp add: scan_log_throws_valid_match)
  then have fm: "first_match factory (pre @ lg # post) = first_match factory (pre @ post)"
    by (rule first_match_skip)
  then show "scan_logs factory (pre @ lg # post) = scan_logs factory (pre @ post)"
    by (simp add: scan_logs_first_match)
  from fm h show "extractPoolAddress factory (Inr (Some r)) =
         extractPoolAddress factory (Inr (Some (r\<lparr>logs := Some (pre @ post)\<rparr>)))"
    by (simp add: extractPoolAddress_receipt)
qed

text \<open>
  On the example receipt: the factory log without topics throws a \<open>TypeError\<close>, as
  does the \<open>null\<close> entry; the scan passes over it and still finds the address, and a
  rejected fetch gives \<open>null\<close>.
\<close>

theorem extractPoolAddress_never_throws_witness:
  "scan_log example_factory None = Inl TypeError
   \<and> scan_log example_factory (Some broken_log) = Inl TypeError
   \<and> logs example_receipt =
       Some ([None, Some foreign_log] @ Some broken_log
             # [Some first_factory_log, Some later_factory_log])
   \<and> extractPoolAddress example_factory (Inr (Some example_receipt)) =
       extractPoolAddress example_factory
         (Inr (Some (example_receipt\<lparr>logs := Some ([None, Some foreign_log]
             @ [Some first_factory_log, Some later_factory_log])\<rparr>)))
   \<and> extractPoolAddress example_factory (Inr (Some example_receipt))
       = Inr (Some ''0x1111111111222222222233333333334444444444'')
   \<and> extractPoolAddress example_factory (Inl Rejected) = Inr None"
proof -
  have h0: "scan_log example_factory None = Inl TypeError"
    by (simp add: scan_log_def)
  have h1: "scan_log example_factory (Some broken_log) = Inl TypeError"
    by code_simp
  have h2: "logs example_receipt =
       Some ([None, Some foreign_log] @ Some broken_log
             # [Some first_factory_log, Some later_factory_log])"
    by (simp add: example_receipt_def)
  have h3: "extractPoolAddress example_factory (Inr (Some example_receipt))
       = Inr (Some ''0x1111111111222222222233333333334444444444'')"
    by code_simp
  note inst = extractPoolAddress_never_throws
    [of example_factory "Inl Rejected" Rejected example_receipt]
  from inst have "extractPoolAddress example_factory (Inl Rejected) = Inr None"
    by blast
  moreover from inst h1 h2 have "extractPoolAddress example_factory (Inr (Some example_receipt)) =
       extractPoolAddress example_factory
         (Inr (Some (example_receipt\<lparr>logs := Some ([None, Some foreign_log]
             @ [Some first_factory_log, Some later_factory_log])\<rparr>)))"
    by blast
  ultimately show ?thesis using h0 h1 h2 h3 by simp
qed

text \<open>
  C4. A receipt with zero logs, or with no log whose emitting address equals the
  factory address without regard to case, makes the Scanner return \<open>null\<close>.
\<close>

theorem extractPoolAddress_no_factory_log:
  assumes "logs r = Some ls"
    and "ls = [] \<or> (\<forall>lg \<in> set ls. \<not> emitted_by_factory factory lg)"
  shows "extractPoolAddress factory (Inr (Some r)) = Inr None"
proof -
  from assms(2) have "\<forall>lg \<in> set ls. valid_match factory lg = None"
    by (auto simp: not_emitted_valid_match)
  then have "first_match factory ls = None"
    by (rule first_match_all_none)
  with assms(1) show ?thesis
    by (simp add: extractPoolAddress_receipt)
qed

text \<open>
  A receipt whose logs all come from another contract, although their topics would
  match; and a receipt with no log at all.
\<close>

theorem extractPoolAddress_no_factory_log_witness:
  "list_all (\<lambda>lg. \<not> emitted_by_factory example_factory lg)
      [Some foreign_log, None, Some foreign_log]
   \<and> extractPoolAddress example_factory
        (Inr (Some \<lparr>logs = Some [Some foreign_log, None, Some foreign_log]\<rparr>)) = Inr None
   \<and> extractPoolAddress example_factory (Inr (Some \<lparr>logs = Some []\<rparr>)) = Inr None"
proof -
  have h: "list_all (\<lambda>lg. \<not> emitted_by_factory example_factory lg)
      [Some foreign_log, None, Some foreign_log]"
    by code_simp
  then have h': "\<forall>lg \<in> set [Some foreign_log, None, Some foreign_log].
      \<not> emitted_by_factory example_factory lg"
    by (simp only: list_all_iff)
  have a: "extractPoolAddress example_factory
        (Inr (Some \<lparr>logs = Some [Some foreign_log, None, Some foreign_log]\<rparr>)) = Inr None"
    using h' by (intro extractPoolAddress_no_factory_log
        [of _ "[Some foreign_log, None, Some foreign_log]"]) simp_all
  have b: "extractPoolAddress example_factory (Inr (Some \<lparr>logs = Some []\<rparr>)) = Inr None"
    by (intro extractPoolAddress_no_factory_log [of _ "[]"]) simp_all
  from h a b show ?thesis by simp
qed

section \<open>Auxiliary facts\<close>

subsection \<open>Evaluation and small facts\<close>

lemmas text_eval = char_of_def bit_Suc_0_iff decimal.simps toLowerCase_def lower_char_def
  generatePoolId_def substr_def

lemma truthy_None_iff: "truthy x = None \<longleftrightarrow> x = None \<or> x = Some []"
  by (simp add: truthy_def split: option.splits)

lemma truthy_Some_iff: "truthy x = Some s \<longleftrightarrow> x = Some s \<and> s \<noteq> []"
  by (auto simp: truthy_def split: option.splits)

lemma or_default_absent: "x = None \<or> x = Some [] \<Longrightarrow> or_default x d = d"
  by (auto simp: or_default_def truthy_def)

lemma or_default_present: "x = Some s \<Longrightarrow> s \<noteq> [] \<Longrightarrow> or_default x d = s"
  by (simp add: or_default_def truthy_def)

lemma ensureDataDir_files:
  "pools_file (ensureDataDir st) = pools_file st"
  "activities_file (ensureDataDir st) = activities_file st"
  "members_file (ensureDataDir st) = members_file st"
  "data_dir (ensureDataDir st) = True"
  by (simp_all add: ensureDataDir_def)

lemma ensureDataDir_idem: "data_dir st \<Longrightarrow> ensureDataDir st = st"
  by (simp add: ensureDataDir_def)

lemma toLowerCase_Nil_iff: "toLowerCase a = [] \<longleftrightarrow> a = []"
  by (simp add: toLowerCase_def)

lemma toLowerCase_eq_Nil: "toLowerCase a = toLowerCase b \<Longrightarrow> (a = [] \<longleftrightarrow> b = [])"
  by (metis toLowerCase_Nil_iff)

subsection \<open>Decimal text\<close>

lemma decimal_nonempty: "decimal n \<noteq> []"
  by (subst decimal.simps) simp

lemma digit_char_is_digit: "(n::nat) < 10 \<Longrightarrow> is_digit (char_of (48 + n))"
  by (simp add: is_digit_def)

lemma decimal_is_digit: "list_all is_digit (decimal n)"
proof (induction n rule: decimal.induct)
  case (1 n)
  show ?case
  proof (cases "n < 10")
    case True
    then show ?thesis by (subst decimal.simps) (simp add: digit_char_is_digit)
  next
    case False
    have "n mod 10 < 10" by simp
    then have "is_digit (char_of (48 + n mod 10))" by (rule digit_char_is_digit)
    with False "1.IH" show ?thesis by (subst decimal.simps) simp
  qed
qed

lemma digit_char_inj:
  assumes "(a::nat) < 10" "(b::nat) < 10" "char_of (48 + a) = (char_of (48 + b) :: char)"
  shows "a = b"
proof -
  from assms(3) have "(of_char (char_of (48 + a) :: char) :: nat) = of_char (char_of (48 + b) :: char)"
    by simp
  with assms(1,2) show ?thesis by simp
qed

lemma decimal_length_ge2: "\<not> n < 10 \<Longrightarrow> 2 \<le> length (decimal n)"
proof -
  assume "\<not> n < 10"
  then have "decimal n = decimal (n div 10) @ [char_of (48 + n mod 10)]"
    by (subst decimal.simps) simp
  moreover have "decimal (n div 10) \<noteq> []" by (rule decimal_nonempty)
  ultimately show ?thesis by (cases "decimal (n div 10)") simp_all
qed

lemma decimal_inj: "decimal m = decimal n \<Longrightarrow> m = n"
proof (induction m arbitrary: n rule: decimal.induct)
  case (1 m)
  show ?case
  proof (cases "m < 10")
    case mlt: True
    then have dm: "decimal m = [char_of (48 + m)]" by (subst decimal.simps) simp
    show ?thesis
    proof (cases "n < 10")
      case True
      then have "decimal n = [char_of (48 + n)]" by (subst decimal.simps) simp
      with dm "1.prems" have "char_of (48 + m) = (char_of (48 + n) :: char)" by simp
      with mlt True show ?thesis by (rule digit_char_inj)
    next
      case False
      then have "2 \<le> length (decimal n)" by (rule decimal_length_ge2)
      with dm "1.prems" show ?thesis by simp
    qed
  next
    case mge: False
    then have dm: "decimal m = decimal (m div 10) @ [char_of (48 + m mod 10)]"
      by (subst decimal.simps) simp
    show ?thesis
    proof (cases "n < 10")
      case True
      then have "decimal n = [char_of (48 + n)]" by (subst decimal.simps) simp
      moreover from mge have "2 \<le> length (decimal m)" by (rule decimal_length_ge2)
      ultimately show ?thesis using "1.prems" by simp
    next
      case False
      then have dn: "decimal n = decimal (n div 10) @ [char_of (48 + n mod 10)]"
        by (subst decimal.simps) simp
      from dm dn "1.prems" have eq: "decimal (m div 10) = decimal (n div 10)"
        and ch: "char_of (48 + m mod 10) = (char_of (48 + n mod 10) :: char)"
        by simp_all
      from mge eq have q: "m div 10 = n div 10" by (rule "1.IH")
      have "m mod 10 < 10" "n mod 10 < 10" by simp_all
      with ch have r: "m mod 10 = n mod 10" by (intro digit_char_inj) simp_all
      have "m = 10 * (m div 10) + m mod 10" by simp
      also have "\<dots> = 10 * (n div 10) + n mod 10" using q r by simp
      also have "\<dots> = n" by simp
      finally show ?thesis .
    qed
  qed
qed

lemma underscore_not_digit: "\<not> is_digit CHR ''_''"
  by (simp add: is_digit_def)

lemma decimal_no_underscore: "CHR ''_'' \<notin> set (decimal n)"
proof
  assume "CHR ''_'' \<in> set (decimal n)"
  with decimal_is_digit [of n] have "is_digit CHR ''_''"
    by (simp add: list_all_iff)
  with underscore_not_digit show False by simp
qed

lemma split_at_separator:
  "c \<notin> set xs \<Longrightarrow> c \<notin> set ys \<Longrightarrow> xs @ c # us = ys @ c # vs \<Longrightarrow> xs = ys \<and> us = vs"
proof (induction xs arbitrary: ys)
  case Nil
  then show ?case by (cases ys) auto
next
  case (Cons x xs)
  then show ?case by (cases ys) auto
qed

lemma generatePoolId_eq_iff:
  "generatePoolId t1 r1 = generatePoolId t2 r2 \<longleftrightarrow> t1 = t2 \<and> substr 2 9 r1 = substr 2 9 r2"
proof
  assume "generatePoolId t1 r1 = generatePoolId t2 r2"
  then have "decimal t1 @ CHR ''_'' # substr 2 9 r1 = decimal t2 @ CHR ''_'' # substr 2 9 r2"
    by (simp add: generatePoolId_def)
  with decimal_no_underscore [of t1] decimal_no_underscore [of t2]
  have "decimal t1 = decimal t2 \<and> substr 2 9 r1 = substr 2 9 r2"
    by (rule split_at_separator)
  then show "t1 = t2 \<and> substr 2 9 r1 = substr 2 9 r2"
    by (auto dest: decimal_inj)
next
  assume "t1 = t2 \<and> substr 2 9 r1 = substr 2 9 r2"
  then show "generatePoolId t1 r1 = generatePoolId t2 r2"
    by (simp add: generatePoolId_def)
qed

lemma generatePoolId_nonempty: "generatePoolId t r \<noteq> []"
  by (simp add: generatePoolId_def)

lemma substr_length: "length (substr 2 9 r) \<le> 9"
  by (simp add: substr_def)

subsection \<open>Rounding to a double\<close>

lemma binade_from_below:
  "a < 2 powi (- 1021) \<Longrightarrow> binade_from n a = - 1022"
proof (induction n)
  case 0
  show ?case by simp
next
  case (Suc n)
  have "(2::rat) powi (- 1021) \<le> 2 powi (int (Suc n) - 1022)"
    by (intro power_int_increasing) simp_all
  with Suc.prems have "\<not> 2 powi (int (Suc n) - 1022) \<le> a" by linarith
  with Suc show ?case by simp
qed

lemma binade_from_eq:
  "- 1022 \<le> e \<Longrightarrow> e \<le> int n - 1022 \<Longrightarrow> 2 powi e \<le> a \<Longrightarrow> a < 2 powi (e + 1) \<Longrightarrow>
   binade_from n a = e"
proof (induction n)
  case 0
  then show ?case by simp
next
  case (Suc n)
  show ?case
  proof (cases "e = int (Suc n) - 1022")
    case True
    with Suc.prems show ?thesis by simp
  next
    case False
    with Suc.prems have le: "e \<le> int n - 1022" by simp
    then have "(2::rat) powi (e + 1) \<le> 2 powi (int (Suc n) - 1022)"
      by (intro power_int_increasing) simp_all
    with Suc.prems have "\<not> 2 powi (int (Suc n) - 1022) \<le> a" by linarith
    moreover from Suc.prems le have "binade_from n a = e" by (intro Suc.IH) simp_all
    ultimately show ?thesis by simp
  qed
qed

lemma binade_eq:
  "- 1022 \<le> e \<Longrightarrow> e \<le> 1024 \<Longrightarrow> 2 powi e \<le> a \<Longrightarrow> a < 2 powi (e + 1) \<Longrightarrow> binade a = e"
  unfolding binade_def by (rule binade_from_eq) simp_all

lemma binade_below: "a < 2 powi (- 1021) \<Longrightarrow> binade a = - 1022"
  unfolding binade_def by (rule binade_from_below)

lemma round_half_even_nonneg: "0 \<le> x \<Longrightarrow> 0 \<le> round_half_even x"
  by (auto simp: round_half_even_def Let_def)

lemma round_half_even_of_int: "round_half_even (of_int z) = z"
  by (simp add: round_half_even_def)

lemma round_half_even_zero: "round_half_even 0 = 0"
  by (simp add: round_half_even_def)

lemma round_half_even_le_half:
  assumes "0 \<le> x" "x \<le> 1 / 2"
  shows "round_half_even x = 0"
proof -
  from assms have "\<lfloor>x\<rfloor> = 0" by (simp add: floor_eq_iff)
  with assms show ?thesis by (simp add: round_half_even_def)
qed

text \<open>Rounding keeps the sign: no number rounds to a double on the other side of 0.\<close>

lemma to_double_sign:
  assumes "to_double q = Num r"
  shows "(0 \<le> q \<longrightarrow> 0 \<le> r) \<and> (q \<le> 0 \<longrightarrow> r \<le> 0)"
proof -
  let ?u = "(2::rat) powi (binade \<bar>q\<bar> - 52)"
  have u: "0 < ?u" by simp
  then have "0 \<le> \<bar>q\<bar> / ?u" by simp
  then have "0 \<le> round_half_even (\<bar>q\<bar> / ?u)" by (rule round_half_even_nonneg)
  with u have nn: "0 \<le> of_int (round_half_even (\<bar>q\<bar> / ?u)) * ?u" by simp
  show ?thesis
  proof (cases "q = 0")
    case True
    with assms show ?thesis
      by (simp add: to_double_def Let_def round_half_even_zero split: if_splits)
  next
    case False
    with assms nn show ?thesis
      by (auto simp: to_double_def Let_def split: if_splits)
  qed
qed

lemma to_double_in_binade:
  assumes "- 1022 \<le> e" "e \<le> 1024" "2 powi e \<le> \<bar>q\<bar>" "\<bar>q\<bar> < 2 powi (e + 1)"
  shows "to_double q =
     (let u = 2 powi (e - 52); r = of_int (round_half_even (\<bar>q\<bar> / u)) * u
      in if 2 powi 1024 \<le> r then (if 0 < q then PosInfinity else NegInfinity)
         else Num (if 0 < q then r else - r))"
  using binade_eq [OF assms] by (simp add: to_double_def)

lemma to_double_zero: "to_double 0 = Num 0"
proof -
  have "binade 0 = - 1022" by (rule binade_below) simp
  then show ?thesis by (simp add: to_double_def round_half_even_zero)
qed

text \<open>
  At or below \<open>2^-1075\<close>, half of the smallest positive double, a magnitude rounds to
  zero.
\<close>

lemma to_double_underflow:
  assumes "\<bar>q\<bar> \<le> 2 powi (- 1075)"
  shows "to_double q = Num 0"
proof -
  have "(2::rat) powi (- 1075) < 2 powi (- 1021)"
    by (intro power_int_strict_increasing) simp_all
  with assms have "\<bar>q\<bar> < 2 powi (- 1021)" by simp
  then have b: "binade \<bar>q\<bar> = - 1022" by (rule binade_below)
  have "\<bar>q\<bar> / 2 powi (- 1074) \<le> 2 powi (- 1075) / 2 powi (- 1074)"
    using assms by (intro divide_right_mono) simp_all
  also have "(2::rat) powi (- 1075) / 2 powi (- 1074) = 2 powi (- 1075 - (- 1074))"
    by (subst power_int_diff) simp_all
  also have "\<dots> = 1 / 2" by simp
  finally have "\<bar>q\<bar> / 2 powi (- 1074) \<le> 1 / 2" .
  moreover have "0 \<le> \<bar>q\<bar> / 2 powi (- 1074)" by simp
  ultimately have "round_half_even (\<bar>q\<bar> / 2 powi (- 1074)) = 0"
    by (intro round_half_even_le_half)
  with b show ?thesis by (simp add: to_double_def)
qed

text \<open>The whole numbers up to \<open>2^53\<close> are doubles.\<close>

lemma to_double_of_nat:
  assumes "n \<le> 2 ^ 53"
  shows "to_double (of_nat n) = Num (of_nat n)"
proof (cases "n = 0")
  case True
  then show ?thesis by (simp add: to_double_zero)
next
  case False
  then have "1 \<le> n" by simp
  with ex_power_ivl1 [of 2 n] obtain e where e: "2 ^ e \<le> n" "n < 2 ^ (e + 1)"
    by auto
  have e53: "e \<le> 53"
  proof (rule power_le_imp_le_exp)
    show "(1::nat) < 2" by simp
    show "(2::nat) ^ e \<le> 2 ^ 53" using e(1) assms by simp
  qed
  have lo: "(2::rat) powi (int e) \<le> \<bar>of_nat n\<bar>"
    using e(1) by (simp add: of_nat_le_iff [of "2 ^ e" n, where ?'a = rat, simplified])
  have hi: "\<bar>of_nat n :: rat\<bar> < 2 powi (int e + 1)"
  proof -
    have "(of_nat n :: rat) < of_nat (2 ^ (e + 1))" using e(2) by (simp only: of_nat_less_iff)
    also have "\<dots> = 2 powi (int e + 1)"
      by (simp add: power_int_add)
    finally show ?thesis by simp
  qed
  have td: "to_double (of_nat n) =
     (let u = 2 powi (int e - 52); r = of_int (round_half_even (\<bar>of_nat n\<bar> / u)) * u
      in if 2 powi 1024 \<le> r then (if 0 < (of_nat n :: rat) then PosInfinity else NegInfinity)
         else Num (if 0 < (of_nat n :: rat) then r else - r))"
    using e53 lo hi by (intro to_double_in_binade) simp_all
  have small: "(of_nat n :: rat) < 2 powi 1024"
  proof -
    have "(of_nat n :: rat) \<le> of_nat (2 ^ 53)" using assms by (simp only: of_nat_le_iff)
    also have "\<dots> < 2 powi 1024" by simp
    finally show ?thesis .
  qed
  have exact: "of_int (round_half_even (\<bar>of_nat n :: rat\<bar> / 2 powi (int e - 52))) * 2 powi (int e - 52)
      = (of_nat n :: rat)"
  proof (cases "e \<le> 52")
    case True
    then have u: "(2::rat) powi (int e - 52) = 1 / 2 ^ (52 - e)"
      by (simp add: power_int_def nat_diff_distrib' power_one_over)
    have "\<bar>of_nat n :: rat\<bar> / (1 / 2 ^ (52 - e)) = of_int (int n * 2 ^ (52 - e))"
      by simp
    then have "round_half_even (\<bar>of_nat n :: rat\<bar> / (1 / 2 ^ (52 - e))) = int n * 2 ^ (52 - e)"
      by (simp only: round_half_even_of_int)
    then show ?thesis by (simp add: u)
  next
    case False
    with e53 have e: "e = 53" by simp
    with \<open>2 ^ e \<le> n\<close> assms have n: "n = 2 ^ 53" by simp
    have "\<bar>of_nat n :: rat\<bar> / 2 powi (int e - 52) = of_int (2 ^ 52)"
      by (simp add: e n)
    then have "round_half_even (\<bar>of_nat n :: rat\<bar> / 2 powi (int e - 52)) = 2 ^ 52"
      by (simp only: round_half_even_of_int)
    then show ?thesis by (simp add: e n)
  qed
  from False have pos: "0 < (of_nat n :: rat)" by simp
  from td exact small pos show ?thesis by (simp add: Let_def)
qed

text \<open>
  Above \<open>2^53\<close> not every whole number is a double: \<open>2^53 + 1\<close> lies half way
  between two doubles and goes to the even one.
\<close>

lemma to_double_above_2_53: "to_double 9007199254740993 = Num 9007199254740992"
proof -
  have fl: "\<lfloor>9007199254740993 / 2 :: rat\<rfloor> = 4503599627370496"
    by (simp add: floor_eq_iff)
  show ?thesis
    by (subst to_double_in_binade [of 53]) (simp_all add: round_half_even_def Let_def fl)
qed

subsection \<open>What \<open>parseFloat\<close> returns\<close>

lemma JSON_number_Num: "JSON_number (Num q) = Some q"
  by (simp add: JSON_number_def)

lemma JSON_number_Some: "JSON_number x = Some q \<Longrightarrow> x = Num q"
  by (simp add: JSON_number_def split: jsnum.splits)

lemma scale10_nonneg: "0 \<le> m \<Longrightarrow> 0 \<le> scale10 m e"
  by (simp add: scale10_def)

lemma unsigned_literal_nonneg:
  assumes "unsigned_literal s = Num q"
  shows "0 \<le> q"
proof -
  from assms obtain m e where "to_double (scale10 (of_nat m) e) = Num q"
    by (auto simp: unsigned_literal_def Let_def split: if_splits)
  moreover have "0 \<le> scale10 (of_nat m) e" by (rule scale10_nonneg) simp
  ultimately show ?thesis using to_double_sign by blast
qed

lemma parseFloat_nonneg:
  assumes "\<not> leading_minus s" "parseFloat s = Num q"
  shows "0 \<le> q"
  using assms
  by (auto simp: parseFloat_def leading_minus_def split: list.splits if_splits
        dest: unsigned_literal_nonneg)

lemma digit_not_special:
  assumes "is_digit c"
  shows "\<not> is_whitespace c" "c \<noteq> CHR ''-''" "c \<noteq> CHR ''+''" "c \<noteq> CHR ''I''"
  using assms by (auto simp: is_digit_def is_whitespace_def Let_def)

lemma unsigned_literal_digits:
  assumes "s \<noteq> []" "list_all is_digit s"
  shows "unsigned_literal s = to_double (of_nat (digits_value s))"
proof -
  from assms obtain c r where s: "s = c # r" and c: "is_digit c"
    by (cases s) auto
  from c have "c \<noteq> CHR ''I''" by (rule digit_not_special)
  with s have inf: "take 8 s \<noteq> ''Infinity''" by auto
  from assms(2) have tw: "takeWhile is_digit s = s" and dw: "dropWhile is_digit s = []"
    by (simp_all add: list_all_iff)
  show ?thesis
    unfolding unsigned_literal_def Let_def tw dw
    using inf assms(1) by (simp add: exponent_part_def scale10_def)
qed

lemma parseFloat_digits:
  assumes "s \<noteq> []" "list_all is_digit s"
  shows "parseFloat s = to_double (of_nat (digits_value s))"
proof -
  from assms obtain c r where s: "s = c # r" and c: "is_digit c"
    by (cases s) auto
  from c have "\<not> is_whitespace c" "c \<noteq> CHR ''-''" "c \<noteq> CHR ''+''"
    by (rule digit_not_special)+
  with s have "parseFloat s = unsigned_literal s"
    by (simp add: parseFloat_def)
  with assms show ?thesis by (simp add: unsigned_literal_digits)
qed

lemma JSON_number_digits:
  assumes "s \<noteq> []" "list_all is_digit s" "digits_value s \<le> 2 ^ 53"
  shows "JSON_number (parseFloat s) = Some (of_nat (digits_value s))"
  using assms by (simp add: parseFloat_digits to_double_of_nat JSON_number_Num)

lemma parseFloat_zero: "JSON_number (parseFloat ''0'') = Some 0"
proof -
  have "JSON_number (parseFloat ''0'') = Some (of_nat (digits_value ''0''))"
    by (rule JSON_number_digits) (simp_all add: is_digit_def digits_value_def)
  then show ?thesis by (simp add: digits_value_def)
qed

text \<open>
  Texts with a sign, a fraction, an exponent, and texts that are no number:
  \<open>-5\<close> and \<open>12.5\<close> are doubles, \<open>9007199254740993\<close> is rounded to the double
  below it, \<open>1e-324\<close> is rounded to zero.
\<close>

lemma parseFloat_minus_5: "parseFloat ''-5'' = Num (- 5)"
proof -
  have "unsigned_literal ''5'' = to_double (of_nat (digits_value ''5''))"
    by (rule unsigned_literal_digits) (simp_all add: is_digit_def)
  also have "\<dots> = Num (of_nat (digits_value ''5''))"
    by (rule to_double_of_nat) (simp add: digits_value_def)
  finally have "unsigned_literal ''5'' = Num 5" by (simp add: digits_value_def)
  then show ?thesis by (simp add: parseFloat_def is_whitespace_def negate_def)
qed

lemma parseFloat_not_a_number: "parseFloat ''n/a'' = NaN"
  by (simp add: parseFloat_def is_whitespace_def unsigned_literal_def is_digit_def)

lemma parseFloat_fraction: "parseFloat ''12.5'' = Num (25 / 2)"
proof -
  have "to_double (25 / 2) = Num (25 / 2)"
    by (subst to_double_in_binade [of 3]) (simp_all add: round_half_even_def Let_def)
  then show ?thesis
    by (simp add: parseFloat_def is_whitespace_def unsigned_literal_def is_digit_def
          digits_value_def exponent_part_def scale10_def)
qed

lemma parseFloat_above_2_53: "parseFloat ''9007199254740993'' = Num 9007199254740992"
proof -
  have "parseFloat ''9007199254740993'' = to_double (of_nat (digits_value ''9007199254740993''))"
    by (rule parseFloat_digits) (simp_all add: is_digit_def)
  then show ?thesis by (simp add: digits_value_def to_double_above_2_53)
qed

lemma parseFloat_underflow: "parseFloat ''1e-324'' = Num 0"
proof -
  have "(2::rat) ^ 1075 \<le> 10 ^ 324" by simp
  then have "\<bar>1 / 10 ^ 324 :: rat\<bar> \<le> 2 powi (- 1075)"
    by (simp add: power_int_minus field_simps)
  then have "to_double (1 / 10 ^ 324) = Num 0" by (rule to_double_underflow)
  then show ?thesis
    by (simp add: parseFloat_def is_whitespace_def unsigned_literal_def is_digit_def
          digits_value_def exponent_part_def scale10_def)
qed

subsection \<open>POST and GET, case by case\<close>

lemma POST_invalid:
  assumes "truthy (name b) = None \<or> truthy (creatorAddress b) = None \<or> truthy (poolAddress b) = None"
  shows "POST e (Inr (Some b)) st = ((400, ErrorMsg ''Missing required fields''), ensureDataDir st)"
  using assms by (auto simp: POST_def Let_def split: option.splits)

lemma POST_valid:
  assumes "truthy (name b) = Some nm" "truthy (creatorAddress b) = Some ca"
    "truthy (poolAddress b) = Some pa"
  shows "POST e (Inr (Some b)) st =
     (case newPool e b nm ca pa of
        Inl err \<Rightarrow> ((500, ErrorMsg ''Internal server error''), ensureDataDir st)
      | Inr np \<Rightarrow>
          ((201, CreatedPool np),
           (ensureDataDir st)\<lparr>
             pools_file := Some (readDataFile (pools_file st) [] @ [np]),
             activities_file := Some
               (case members b of
                  None \<Rightarrow> readDataFile (activities_file st) []
                | Some ms \<Rightarrow>
                    if ms = [] then readDataFile (activities_file st) []
                    else readDataFile (activities_file st) [] @ [createdActivity e b np ca ms]),
             members_file := Some
               (case members b of
                  None \<Rightarrow> readDataFile (members_file st) Map.empty
                | Some ms \<Rightarrow>
                    if ms = [] then readDataFile (members_file st) Map.empty
                    else (readDataFile (members_file st) Map.empty)
                           (p_id np \<mapsto> memberEntries e b np ms))\<rparr>))"
  using assms
  by (simp add: POST_def Let_def ensureDataDir_files split: option.splits sum.splits)

lemma POST_201:
  assumes "POST e (Inr (Some b)) st = ((201, CreatedPool p), st')"
  obtains nm ca pa where "truthy (name b) = Some nm" "truthy (creatorAddress b) = Some ca"
    "truthy (poolAddress b) = Some pa" "newPool e b nm ca pa = Inr p"
    "pools_file st' = Some (readDataFile (pools_file st) [] @ [p])"
    "activities_file st' = Some
       (case members b of
          None \<Rightarrow> readDataFile (activities_file st) []
        | Some ms \<Rightarrow>
            if ms = [] then readDataFile (activities_file st) []
            else readDataFile (activities_file st) [] @ [createdActivity e b p ca ms])"
    "members_file st' = Some
       (case members b of
          None \<Rightarrow> readDataFile (members_file st) Map.empty
        | Some ms \<Rightarrow>
            if ms = [] then readDataFile (members_file st) Map.empty
            else (readDataFile (members_file st) Map.empty)
                   (p_id p \<mapsto> memberEntries e b p ms))"
    "data_dir st' = True"
proof -
  have "\<not> (truthy (name b) = None \<or> truthy (creatorAddress b) = None \<or> truthy (poolAddress b) = None)"
  proof
    assume "truthy (name b) = None \<or> truthy (creatorAddress b) = None \<or> truthy (poolAddress b) = None"
    then have "POST e (Inr (Some b)) st = ((400, ErrorMsg ''Missing required fields''), ensureDataDir st)"
      by (rule POST_invalid)
    with assms show False by simp
  qed
  then obtain nm ca pa where t: "truthy (name b) = Some nm" "truthy (creatorAddress b) = Some ca"
    "truthy (poolAddress b) = Some pa" by auto
  note pv = POST_valid [OF t, of e st]
  from assms pv have np: "newPool e b nm ca pa = Inr p"
    by (simp split: sum.splits)
  from assms pv np have st': "st' = (ensureDataDir st)\<lparr>
             pools_file := Some (readDataFile (pools_file st) [] @ [p]),
             activities_file := Some
               (case members b of
                  None \<Rightarrow> readDataFile (activities_file st) []
                | Some ms \<Rightarrow>
                    if ms = [] then readDataFile (activities_file st) []
                    else readDataFile (activities_file st) [] @ [createdActivity e b p ca ms]),
             members_file := Some
               (case members b of
                  None \<Rightarrow> readDataFile (members_file st) Map.empty
                | Some ms \<Rightarrow>
                    if ms = [] then readDataFile (members_file st) Map.empty
                    else (readDataFile (members_file st) Map.empty)
                           (p_id p \<mapsto> memberEntries e b p ms))\<rparr>"
    by simp
  show thesis
    by (rule that [OF t np]) (simp_all add: st' ensureDataDir_files)
qed

lemma POST_201_pools:
  assumes "POST e (Inr (Some b)) st = ((201, CreatedPool p), st')"
  shows "readDataFile (pools_file st') [] = readDataFile (pools_file st) [] @ [p]"
  using assms by (rule POST_201) (simp add: readDataFile_def)

lemma POST_201_no_members:
  assumes "POST e (Inr (Some b)) st = ((201, CreatedPool p), st')"
    and "members b = None \<or> members b = Some []"
  shows "readDataFile (activities_file st') [] = readDataFile (activities_file st) []"
    and "readDataFile (members_file st') Map.empty = readDataFile (members_file st) Map.empty"
proof -
  from assms(1) show "readDataFile (activities_file st') [] = readDataFile (activities_file st) []"
    by (rule POST_201) (use assms(2) in \<open>auto simp: readDataFile_def\<close>)
  from assms(1) show "readDataFile (members_file st') Map.empty
      = readDataFile (members_file st) Map.empty"
    by (rule POST_201) (use assms(2) in \<open>auto simp: readDataFile_def\<close>)
qed

lemma POST_201_members:
  assumes "POST e (Inr (Some b)) st = ((201, CreatedPool p), st')"
    and "members b = Some ms" and "ms \<noteq> []" and "creatorAddress b = Some ca"
  shows "readDataFile (activities_file st') []
           = readDataFile (activities_file st) [] @ [createdActivity e b p ca ms]"
    and "readDataFile (members_file st') Map.empty
           = (readDataFile (members_file st) Map.empty)(p_id p \<mapsto> memberEntries e b p ms)"
proof -
  from assms(1) show "readDataFile (activities_file st') []
           = readDataFile (activities_file st) [] @ [createdActivity e b p ca ms]"
  proof (rule POST_201)
    fix nm ca' pa
    assume "truthy (creatorAddress b) = Some ca'"
      and "activities_file st' = Some
       (case members b of
          None \<Rightarrow> readDataFile (activities_file st) []
        | Some ms \<Rightarrow>
            if ms = [] then readDataFile (activities_file st) []
            else readDataFile (activities_file st) [] @ [createdActivity e b p ca' ms])"
    with assms(2-4) show ?thesis
      by (simp add: readDataFile_def truthy_Some_iff)
  qed
  from assms(1) show "readDataFile (members_file st') Map.empty
           = (readDataFile (members_file st) Map.empty)(p_id p \<mapsto> memberEntries e b p ms)"
    by (rule POST_201) (use assms(2,3) in \<open>simp add: readDataFile_def\<close>)
qed

lemma POST_response_independent: "fst (POST e (Inr (Some b)) st) = fst (POST e (Inr (Some b)) st0)"
  by (simp add: POST_def Let_def split: option.splits sum.splits)

lemma POST_eqI: "fst (POST e (Inr (Some b)) st) = rs \<Longrightarrow> POST e (Inr (Some b)) st = (rs, snd (POST e (Inr (Some b)) st))"
  by (simp add: prod_eq_iff)

lemma newPool_Inr:
  assumes "newPool e b nm ca pa = Inr p"
  shows "p = \<lparr> p_id = generatePoolId (clock e 0) (random_text e),
                p_name = nm,
                p_description = description b,
                p_type = or_default (poolType b) ''rotational'',
                p_status = ''active'',
                p_creator_address = toLowerCase ca,
                p_contract_address = pa,
                p_token_address =
                  or_default (tokenAddress b) (or_default (NEXT_PUBLIC_TOKEN_ADDRESS e) []),
                p_members_count = (case members b of None \<Rightarrow> 0 | Some ms \<Rightarrow> length ms),
                p_total_saved = 0,
                p_progress = 0,
                p_frequency = Some (or_default (frequency b) ''weekly''),
                p_next_payout = Some (ISO (int (clock e 1) +
                   (case roundDuration b of None \<Rightarrow> 604800
                    | Some d \<Rightarrow> if d = 0 then 604800 else d) * 1000)),
                p_created_at = ISO (int (clock e 2)),
                p_tx_hash = truthy (txHash b) \<rparr>"
    and "\<bar>int (clock e 1) +
           (case roundDuration b of None \<Rightarrow> 604800
            | Some d \<Rightarrow> if d = 0 then 604800 else d) * 1000\<bar> \<le> 8640000000000000"
  using assms
  by (auto simp: newPool_def toISOString_def split: if_splits)

lemma newPool_fields:
  assumes "newPool e b nm ca pa = Inr p"
  shows "p_id p = generatePoolId (clock e 0) (random_text e)"
    and "p_name p = nm"
    and "p_description p = description b"
    and "p_type p = or_default (poolType b) ''rotational''"
    and "p_status p = ''active''"
    and "p_creator_address p = toLowerCase ca"
    and "p_contract_address p = pa"
    and "p_token_address p =
           or_default (tokenAddress b) (or_default (NEXT_PUBLIC_TOKEN_ADDRESS e) [])"
    and "p_members_count p = (case members b of None \<Rightarrow> 0 | Some ms \<Rightarrow> length ms)"
    and "p_total_saved p = 0"
    and "p_progress p = 0"
    and "p_frequency p = Some (or_default (frequency b) ''weekly'')"
    and "p_next_payout p = Some (ISO (int (clock e 1) +
                   (case roundDuration b of None \<Rightarrow> 604800
                    | Some d \<Rightarrow> if d = 0 then 604800 else d) * 1000))"
    and "p_created_at p = ISO (int (clock e 2))"
    and "p_tx_hash p = truthy (txHash b)"
  using newPool_Inr(1) [OF assms] by simp_all

lemma newPool_in_range:
  assumes "\<bar>int (clock e 1) +
           (case roundDuration b of None \<Rightarrow> 604800
            | Some d \<Rightarrow> if d = 0 then 604800 else d) * 1000\<bar> \<le> 8640000000000000"
  shows "\<exists>p. newPool e b nm ca pa = Inr p"
  using assms by (simp add: newPool_def toISOString_def)

text \<open>
  A request is accepted exactly when the three required fields are truthy and the payout
  time is within the range of \<open>Date\<close>; a request that passes the validation and is
  not accepted is answered 500, the files untouched.
\<close>

lemma POST_accepted_iff:
  "(\<exists>p st'. POST e (Inr (Some b)) st = ((201, CreatedPool p), st')) \<longleftrightarrow>
     truthy (name b) \<noteq> None \<and> truthy (creatorAddress b) \<noteq> None \<and>
     truthy (poolAddress b) \<noteq> None \<and>
     \<bar>int (clock e 1) +
        (case roundDuration b of None \<Rightarrow> 604800
         | Some d \<Rightarrow> if d = 0 then 604800 else d) * 1000\<bar> \<le> 8640000000000000"
proof
  assume "\<exists>p st'. POST e (Inr (Some b)) st = ((201, CreatedPool p), st')"
  then obtain p st' where ok: "POST e (Inr (Some b)) st = ((201, CreatedPool p), st')" by blast
  from ok obtain nm ca pa where "truthy (name b) = Some nm" "truthy (creatorAddress b) = Some ca"
    "truthy (poolAddress b) = Some pa" "newPool e b nm ca pa = Inr p"
    by (rule POST_201)
  then show "truthy (name b) \<noteq> None \<and> truthy (creatorAddress b) \<noteq> None \<and>
     truthy (poolAddress b) \<noteq> None \<and>
     \<bar>int (clock e 1) +
        (case roundDuration b of None \<Rightarrow> 604800
         | Some d \<Rightarrow> if d = 0 then 604800 else d) * 1000\<bar> \<le> 8640000000000000"
    using newPool_Inr(2) [of e b nm ca pa p] by simp
next
  assume h: "truthy (name b) \<noteq> None \<and> truthy (creatorAddress b) \<noteq> None \<and>
     truthy (poolAddress b) \<noteq> None \<and>
     \<bar>int (clock e 1) +
        (case roundDuration b of None \<Rightarrow> 604800
         | Some d \<Rightarrow> if d = 0 then 604800 else d) * 1000\<bar> \<le> 8640000000000000"
  then obtain nm ca pa where t: "truthy (name b) = Some nm" "truthy (creatorAddress b) = Some ca"
    "truthy (poolAddress b) = Some pa" by auto
  from h obtain p where "newPool e b nm ca pa = Inr p"
    using newPool_in_range [of e b nm ca pa] by blast
  with POST_valid [OF t, of e st] show "\<exists>p st'. POST e (Inr (Some b)) st = ((201, CreatedPool p), st')"
    by simp
qed

lemma POST_out_of_range:
  assumes "truthy (name b) = Some nm" "truthy (creatorAddress b) = Some ca"
    "truthy (poolAddress b) = Some pa"
    and "\<not> \<bar>int (clock e 1) +
        (case roundDuration b of None \<Rightarrow> 604800
         | Some d \<Rightarrow> if d = 0 then 604800 else d) * 1000\<bar> \<le> 8640000000000000"
  shows "POST e (Inr (Some b)) st = ((500, ErrorMsg ''Internal server error''), ensureDataDir st)"
proof -
  from assms(4) have "newPool e b nm ca pa = Inl RangeError"
    by (simp add: newPool_def toISOString_def)
  with POST_valid [OF assms(1-3), of e st] show ?thesis by simp
qed

lemma memberEntries_length: "length (memberEntries e b np ms) = length ms"
  by (simp add: memberEntries_def)

lemma memberEntries_amount:
  assumes "m \<in> set (memberEntries e b np ms)"
  shows "m_contribution_amount m =
           JSON_number (parseFloat (or_default (contributionAmount b) ''0''))"
  using assms by (auto simp: memberEntries_def)

lemma amount_nonneg:
  assumes "contributionAmount b = Some s" "\<not> leading_minus s"
    "JSON_number (parseFloat (or_default (contributionAmount b) ''0'')) = Some q"
  shows "0 \<le> q"
proof (cases "s = []")
  case True
  with assms(1) have "or_default (contributionAmount b) ''0'' = ''0''"
    by (simp add: or_default_absent)
  with assms(3) show ?thesis by (simp add: parseFloat_zero)
next
  case False
  with assms(1) have "or_default (contributionAmount b) ''0'' = s"
    by (simp add: or_default_present)
  with assms(3) have "parseFloat s = Num q" by (simp add: JSON_number_Some)
  with assms(2) show ?thesis by (rule parseFloat_nonneg)
qed

lemma GET_id:
  assumes "pid \<noteq> []"
  shows "GET \<lparr>poolId = Some pid, creator = cr\<rparr> st =
     (case find (\<lambda>p. p_id p = pid) (readDataFile (pools_file st) []) of
        None \<Rightarrow> ((404, ErrorMsg ''Pool not found''), ensureDataDir st)
      | Some pl \<Rightarrow>
          ((200, PoolWithDetails pl
                   (filter (\<lambda>a. a_pool_id a = pid) (readDataFile (activities_file st) []))
                   (case readDataFile (members_file st) Map.empty pid of
                      Some ms \<Rightarrow> MemberList ms
                    | None \<Rightarrow>
                        if pid \<in> set Object_prototype then Inherited pid
                        else MemberList [])),
           ensureDataDir st))"
  using assms by (simp add: GET_def Let_def truthy_def ensureDataDir_files split: option.splits)

text \<open>
  The member list of an id that names no inherited property: the list recorded for the
  id, the empty list when there is none.
\<close>

lemma GET_id_members:
  assumes "pid \<noteq> []" "pid \<notin> set Object_prototype"
  shows "GET \<lparr>poolId = Some pid, creator = cr\<rparr> st =
     (case find (\<lambda>p. p_id p = pid) (readDataFile (pools_file st) []) of
        None \<Rightarrow> ((404, ErrorMsg ''Pool not found''), ensureDataDir st)
      | Some pl \<Rightarrow>
          ((200, PoolWithDetails pl
                   (filter (\<lambda>a. a_pool_id a = pid) (readDataFile (activities_file st) []))
                   (MemberList (case readDataFile (members_file st) Map.empty pid of
                                  None \<Rightarrow> [] | Some ms \<Rightarrow> ms))),
           ensureDataDir st))"
  using assms by (simp add: GET_id split: option.splits)

text \<open>
  An id that names an inherited property and has no entry of its own in the members
  file: the pool is returned with that property in the place of its member list.
\<close>

lemma GET_id_inherited:
  assumes "pid \<in> set Object_prototype"
    and "readDataFile (members_file st) Map.empty pid = None"
    and "find (\<lambda>p. p_id p = pid) (readDataFile (pools_file st) []) = Some pl"
  shows "fst (GET \<lparr>poolId = Some pid, creator = cr\<rparr> st) =
           (200, PoolWithDetails pl
                   (filter (\<lambda>a. a_pool_id a = pid) (readDataFile (activities_file st) []))
                   (Inherited pid))"
proof -
  from assms(1) have "pid \<noteq> []" by (auto simp: Object_prototype_def)
  with assms show ?thesis by (simp add: GET_id)
qed

lemma generatePoolId_not_inherited: "generatePoolId t r \<notin> set Object_prototype"
  by (simp add: generatePoolId_def Object_prototype_def)

lemma GET_creator:
  assumes "pid = None \<or> pid = Some []" "a \<noteq> []"
  shows "GET \<lparr>poolId = pid, creator = Some a\<rparr> st =
     ((200, Pools (filter (\<lambda>p. toLowerCase (p_creator_address p) = toLowerCase a)
                     (readDataFile (pools_file st) []))), ensureDataDir st)"
  using assms by (auto simp: GET_def Let_def truthy_def ensureDataDir_files)

lemma GET_all:
  assumes "pid = None \<or> pid = Some []" "cr = None \<or> cr = Some []"
  shows "GET \<lparr>poolId = pid, creator = cr\<rparr> st =
     ((200, Pools (readDataFile (pools_file st) [])), ensureDataDir st)"
  using assms by (auto simp: GET_def Let_def truthy_def ensureDataDir_files)

lemma find_first_with_id:
  assumes "pid \<in> p_id ` set ps"
  obtains pl where "find (\<lambda>p. p_id p = pid) ps = Some pl" "p_id pl = pid" "pl \<in> set ps"
proof (cases "find (\<lambda>p. p_id p = pid) ps")
  case None
  with assms show thesis by (auto simp: find_None_iff)
next
  case (Some pl)
  then have "p_id pl = pid \<and> pl \<in> set ps"
    by (auto simp: find_Some_iff)
  with Some show thesis by (intro that [of pl]) simp_all
qed

lemma find_no_such_id:
  assumes "pid \<notin> p_id ` set ps"
  shows "find (\<lambda>p. p_id p = pid) ps = None"
  using assms by (auto simp: find_None_iff)

lemma find_appended_fresh:
  assumes "\<forall>q \<in> set ps. p_id q \<noteq> p_id p"
  shows "find (\<lambda>q. p_id q = p_id p) (ps @ [p]) = Some p"
  using assms by (induction ps) auto

subsection \<open>The example requests and the example store\<close>

lemma example_POST:
  "POST example_env (Inr (Some example_body_members)) empty_store = ((201, CreatedPool example_pool), example_store)"
proof -
  have "fst (POST example_env (Inr (Some example_body_members)) empty_store) = (201, CreatedPool example_pool)"
    by (simp add: POST_def example_env_def example_body_members_def example_body_def
        empty_store_def example_pool_def Let_def ensureDataDir_def truthy_def newPool_def
        toISOString_def or_default_def readDataFile_def text_eval)
  then show ?thesis
    by (simp add: example_store_def prod_eq_iff)
qed

lemma example_store_pools: "pools_file example_store = Some [example_pool]"
  using example_POST by (rule POST_201) (simp add: empty_store_def readDataFile_def)

lemma example_store_activities:
  "activities_file example_store =
     Some [createdActivity example_env example_body_members example_pool ''0xABC''
             [''0xA1'', ''0xB2'']]"
proof -
  have ca: "truthy (creatorAddress example_body_members) = Some ''0xABC''"
    by (simp add: example_body_members_def example_body_def truthy_def)
  from example_POST show ?thesis
  proof (rule POST_201)
    fix nm ca' pa
    assume "truthy (creatorAddress example_body_members) = Some ca'"
      and "activities_file example_store = Some
       (case members example_body_members of
          None \<Rightarrow> readDataFile (activities_file empty_store) []
        | Some ms \<Rightarrow>
            if ms = [] then readDataFile (activities_file empty_store) []
            else readDataFile (activities_file empty_store) []
                 @ [createdActivity example_env example_body_members example_pool ca' ms])"
    with ca show ?thesis
      by (simp add: example_body_members_def example_body_def empty_store_def readDataFile_def)
  qed
qed

lemma example_store_members:
  "members_file example_store =
     Some (Map.empty(p_id example_pool \<mapsto>
        memberEntries example_env example_body_members example_pool [''0xA1'', ''0xB2'']))"
  using example_POST
  by (rule POST_201)
     (simp add: example_body_members_def example_body_def empty_store_def readDataFile_def)

lemma example_POST_no_members:
  "fst (POST example_env (Inr (Some example_body)) st) =
     (201, CreatedPool (example_pool\<lparr>p_members_count := 0, p_tx_hash := None\<rparr>))"
proof -
  have "fst (POST example_env (Inr (Some example_body)) empty_store) =
     (201, CreatedPool (example_pool\<lparr>p_members_count := 0, p_tx_hash := None\<rparr>))"
    by (simp add: POST_def example_env_def example_body_def
        empty_store_def example_pool_def Let_def ensureDataDir_def truthy_def newPool_def
        toISOString_def or_default_def readDataFile_def text_eval)
  then show ?thesis
    using POST_response_independent [of example_env example_body st empty_store] by simp
qed

lemma example_POST_amount:
  "fst (POST example_env (Inr (Some (example_body_members\<lparr>contributionAmount := x\<rparr>))) st)
     = (201, CreatedPool example_pool)"
proof -
  have "fst (POST example_env (Inr (Some (example_body_members\<lparr>contributionAmount := x\<rparr>))) empty_store)
     = (201, CreatedPool example_pool)"
    by (simp add: POST_def example_env_def example_body_members_def example_body_def
        empty_store_def example_pool_def Let_def ensureDataDir_def truthy_def newPool_def
        toISOString_def or_default_def readDataFile_def text_eval)
  then show ?thesis
    using POST_response_independent
      [of example_env "example_body_members\<lparr>contributionAmount := x\<rparr>" st empty_store]
    by simp
qed

lemma memberEntries_example_amounts:
  "map m_contribution_amount
     (memberEntries e (example_body_members\<lparr>contributionAmount := x\<rparr>) np [''0xA1'', ''0xB2''])
   = [JSON_number (parseFloat (or_default x ''0'')),
      JSON_number (parseFloat (or_default x ''0''))]"
  by (simp add: memberEntries_def enumerate_eq_zip upt_rec)



section \<open>Pool Record Manager: the claims\<close>

text \<open>
  C2, as amended. Take a create request in which \<open>name\<close>, \<open>creatorAddress\<close> or
  \<open>poolAddress\<close> is missing or empty: its body cannot be read as JSON, or is
  \<open>null\<close>, or is a JSON value that lacks one of the three or has it empty. When the
  body is a JSON value other than \<open>null\<close> the request is answered with 400
  (\<open>Missing required fields\<close>); when the body cannot be read or is \<open>null\<close> it is
  answered with 500 (\<open>Internal server error\<close>). In every one of these cases the three
  files of the store (pools, activities, members) are after the call what they were
  before it.
\<close>

theorem POST_missing_required_field:
  assumes "\<forall>b. body = Inr (Some b) \<longrightarrow>
             name b = None \<or> name b = Some [] \<or>
             creatorAddress b = None \<or> creatorAddress b = Some [] \<or>
             poolAddress b = None \<or> poolAddress b = Some []"
  shows "fst (POST e body st) =
           (case body of
              Inr (Some b) \<Rightarrow> (400, ErrorMsg ''Missing required fields'')
            | _ \<Rightarrow> (500, ErrorMsg ''Internal server error''))
       \<and> pools_file (snd (POST e body st)) = pools_file st
       \<and> activities_file (snd (POST e body st)) = activities_file st
       \<and> members_file (snd (POST e body st)) = members_file st"
proof (cases body)
  case (Inl err)
  then show ?thesis by (simp add: POST_def Let_def ensureDataDir_files)
next
  case (Inr ob)
  show ?thesis
  proof (cases ob)
    case None
    with Inr show ?thesis by (simp add: POST_def Let_def ensureDataDir_files)
  next
    case (Some b)
    with Inr assms have "truthy (name b) = None \<or> truthy (creatorAddress b) = None \<or>
        truthy (poolAddress b) = None"
      by (auto simp: truthy_None_iff)
    then have "POST e (Inr (Some b)) st
        = ((400, ErrorMsg ''Missing required fields''), ensureDataDir st)"
      by (rule POST_invalid)
    with Inr Some show ?thesis by (simp add: ensureDataDir_files)
  qed
qed

text \<open>
  The request with two members but without \<open>poolAddress\<close>, on a store that holds a
  pool; the request with an empty \<open>name\<close> on the empty store; and a request without a
  body on the store that holds a pool.
\<close>

theorem POST_missing_required_field_witness:
  "poolAddress (example_body_members\<lparr>poolAddress := None\<rparr>) = None
   \<and> fst (POST example_env (Inr (Some (example_body_members\<lparr>poolAddress := None\<rparr>))) example_store)
       = (400, ErrorMsg ''Missing required fields'')
   \<and> pools_file (snd (POST example_env (Inr (Some (example_body_members\<lparr>poolAddress := None\<rparr>)))
        example_store)) = Some [example_pool]
   \<and> activities_file (snd (POST example_env (Inr (Some (example_body_members\<lparr>poolAddress := None\<rparr>)))
        example_store)) = activities_file example_store
   \<and> members_file (snd (POST example_env (Inr (Some (example_body_members\<lparr>poolAddress := None\<rparr>)))
        example_store)) = members_file example_store
   \<and> fst (POST example_env (Inr (Some (example_body\<lparr>name := Some []\<rparr>))) empty_store)
       = (400, ErrorMsg ''Missing required fields'')
   \<and> pools_file (snd (POST example_env (Inr (Some (example_body\<lparr>name := Some []\<rparr>))) empty_store))
       = None
   \<and> fst (POST example_env (Inl SyntaxError) example_store)
       = (500, ErrorMsg ''Internal server error'')
   \<and> pools_file (snd (POST example_env (Inl SyntaxError) example_store)) = Some [example_pool]
   \<and> activities_file (snd (POST example_env (Inl SyntaxError) example_store))
       = activities_file example_store
   \<and> members_file (snd (POST example_env (Inl SyntaxError) example_store))
       = members_file example_store"
  using POST_missing_required_field
          [of "Inr (Some (example_body_members\<lparr>poolAddress := None\<rparr>))" example_env example_store]
        POST_missing_required_field
          [of "Inr (Some (example_body\<lparr>name := Some []\<rparr>))" example_env empty_store]
        POST_missing_required_field
          [of "Inl SyntaxError" example_env example_store]
  by (simp add: example_store_pools empty_store_def)

text \<open>
  The claim as stated fails for a request whose body cannot be read: a request with an
  empty body (\<open>request.json()\<close> rejects with a \<open>SyntaxError\<close>) and a request with
  the body \<open>null\<close> have no \<open>name\<close>, no \<open>creatorAddress\<close> and no \<open>poolAddress\<close>,
  and they are answered with 500, not with 400.
\<close>

theorem POST_unreadable_body_counterexample:
  "fst (POST example_env (Inl SyntaxError) empty_store) = (500, ErrorMsg ''Internal server error'')
   \<and> fst (POST example_env (Inr None) empty_store) = (500, ErrorMsg ''Internal server error'')
   \<and> fst (POST example_env (Inl SyntaxError) empty_store)
       \<noteq> (400, ErrorMsg ''Missing required fields'')
   \<and> fst (POST example_env (Inr None) empty_store)
       \<noteq> (400, ErrorMsg ''Missing required fields'')"
  by (simp add: POST_def Let_def)

text \<open>
  C5, as amended. For every store and every \<^emph>\<open>non-empty\<close> id, \<open>GET\<close> with that id
  answers 404 (\<open>Pool not found\<close>) when no stored pool has the id, and otherwise 200
  with the first stored pool of that id, merged with exactly the activities whose
  \<open>pool_id\<close> is the id and with a value for the members: the member list recorded for
  the id when there is one, and the empty list when none is recorded and the id is not
  the name of a property that every object inherits (\<open>constructor\<close>, \<open>toString\<close>,
  ...). (The guard \<open>if (poolId)\<close> takes an empty id for no id. What is returned for
  an id that names an inherited property and has no members recorded is not part of
  this statement; \<open>GET_id_inherited\<close> gives it.)
\<close>

theorem GET_by_id:
  assumes "pid \<noteq> []"
  shows "(pid \<notin> p_id ` set (readDataFile (pools_file st) []) \<longrightarrow>
            fst (GET \<lparr>poolId = Some pid, creator = cr\<rparr> st) = (404, ErrorMsg ''Pool not found''))
       \<and> (pid \<in> p_id ` set (readDataFile (pools_file st) []) \<longrightarrow>
            (\<exists>pl mv. find (\<lambda>p. p_id p = pid) (readDataFile (pools_file st) []) = Some pl
               \<and> pl \<in> set (readDataFile (pools_file st) []) \<and> p_id pl = pid
               \<and> fst (GET \<lparr>poolId = Some pid, creator = cr\<rparr> st) =
                   (200, PoolWithDetails pl
                      (filter (\<lambda>a. a_pool_id a = pid) (readDataFile (activities_file st) []))
                      mv)
               \<and> (\<forall>ms. readDataFile (members_file st) Map.empty pid = Some ms \<longrightarrow>
                     mv = MemberList ms)
               \<and> (readDataFile (members_file st) Map.empty pid = None \<and>
                  pid \<notin> set Object_prototype \<longrightarrow> mv = MemberList [])))"
proof (intro conjI impI)
  assume "pid \<notin> p_id ` set (readDataFile (pools_file st) [])"
  then have "find (\<lambda>p. p_id p = pid) (readDataFile (pools_file st) []) = None"
    by (rule find_no_such_id)
  with assms show "fst (GET \<lparr>poolId = Some pid, creator = cr\<rparr> st) = (404, ErrorMsg ''Pool not found'')"
    by (simp add: GET_id)
next
  let ?mv = "case readDataFile (members_file st) Map.empty pid of
               Some ms \<Rightarrow> MemberList ms
             | None \<Rightarrow> if pid \<in> set Object_prototype then Inherited pid else MemberList []"
  assume "pid \<in> p_id ` set (readDataFile (pools_file st) [])"
  then obtain pl where pl: "find (\<lambda>p. p_id p = pid) (readDataFile (pools_file st) []) = Some pl"
    "p_id pl = pid" "pl \<in> set (readDataFile (pools_file st) [])"
    by (rule find_first_with_id)
  with assms have g: "fst (GET \<lparr>poolId = Some pid, creator = cr\<rparr> st) =
                   (200, PoolWithDetails pl
                      (filter (\<lambda>a. a_pool_id a = pid) (readDataFile (activities_file st) []))
                      ?mv)"
    by (simp add: GET_id)
  have own: "\<forall>ms. readDataFile (members_file st) Map.empty pid = Some ms \<longrightarrow> ?mv = MemberList ms"
    by simp
  have none: "readDataFile (members_file st) Map.empty pid = None \<and>
      pid \<notin> set Object_prototype \<longrightarrow> ?mv = MemberList []"
    by simp
  from pl g own none
  show "\<exists>pl mv. find (\<lambda>p. p_id p = pid) (readDataFile (pools_file st) []) = Some pl
               \<and> pl \<in> set (readDataFile (pools_file st) []) \<and> p_id pl = pid
               \<and> fst (GET \<lparr>poolId = Some pid, creator = cr\<rparr> st) =
                   (200, PoolWithDetails pl
                      (filter (\<lambda>a. a_pool_id a = pid) (readDataFile (activities_file st) []))
                      mv)
               \<and> (\<forall>ms. readDataFile (members_file st) Map.empty pid = Some ms \<longrightarrow>
                     mv = MemberList ms)
               \<and> (readDataFile (members_file st) Map.empty pid = None \<and>
                  pid \<notin> set Object_prototype \<longrightarrow> mv = MemberList [])"
    by blast
qed

text \<open>
  On the example store: an unknown id gives 404; the id of the stored pool gives the pool
  with its activity and its two members; and a pool created without members is read back
  with empty lists.
\<close>

theorem GET_by_id_witness:
  "''pool_0_x'' \<noteq> []
   \<and> ''pool_0_x'' \<notin> p_id ` set (readDataFile (pools_file example_store) [])
   \<and> fst (GET \<lparr>poolId = Some ''pool_0_x'', creator = None\<rparr> example_store)
       = (404, ErrorMsg ''Pool not found'')
   \<and> p_id example_pool \<in> p_id ` set (readDataFile (pools_file example_store) [])
   \<and> fst (GET \<lparr>poolId = Some (p_id example_pool), creator = None\<rparr> example_store)
       = (200, PoolWithDetails example_pool
            [createdActivity example_env example_body_members example_pool ''0xABC''
               [''0xA1'', ''0xB2'']]
            (MemberList
               (memberEntries example_env example_body_members example_pool [''0xA1'', ''0xB2''])))
   \<and> p_id example_pool \<notin> set Object_prototype
   \<and> fst (GET \<lparr>poolId = Some (p_id example_pool), creator = None\<rparr>
           (snd (POST example_env (Inr (Some example_body)) empty_store)))
       = (200, PoolWithDetails (example_pool\<lparr>p_members_count := 0, p_tx_hash := None\<rparr>) []
            (MemberList []))"
proof -
  let ?stn = "snd (POST example_env (Inr (Some example_body)) empty_store)"
  have ne: "''pool_0_x'' \<noteq> []" "p_id example_pool \<noteq> []"
    by (simp_all add: example_pool_def)
  have ninh: "p_id example_pool \<notin> set Object_prototype"
    by (simp add: example_pool_def Object_prototype_def)
  have pools: "readDataFile (pools_file example_store) [] = [example_pool]"
    by (simp add: example_store_pools readDataFile_def)
  have notin: "''pool_0_x'' \<notin> p_id ` set (readDataFile (pools_file example_store) [])"
    by (simp add: pools) (simp add: example_pool_def)
  have isin: "p_id example_pool \<in> p_id ` set (readDataFile (pools_file example_store) [])"
    by (simp add: pools)
  have a: "fst (GET \<lparr>poolId = Some ''pool_0_x'', creator = None\<rparr> example_store)
       = (404, ErrorMsg ''Pool not found'')"
    using GET_by_id [OF ne(1), of example_store None] notin by blast
  have own: "readDataFile (members_file example_store) Map.empty (p_id example_pool)
      = Some (memberEntries example_env example_body_members example_pool [''0xA1'', ''0xB2''])"
    by (simp add: example_store_members readDataFile_def)
  from GET_by_id [OF ne(2), of example_store None] isin
  obtain pl mv where pl: "pl \<in> set (readDataFile (pools_file example_store) [])"
    and g: "fst (GET \<lparr>poolId = Some (p_id example_pool), creator = None\<rparr> example_store) =
          (200, PoolWithDetails pl
             (filter (\<lambda>a. a_pool_id a = p_id example_pool)
                (readDataFile (activities_file example_store) []))
             mv)"
    and mv: "\<forall>ms. readDataFile (members_file example_store) Map.empty (p_id example_pool)
                 = Some ms \<longrightarrow> mv = MemberList ms"
    by blast
  from pl have "pl = example_pool" by (simp add: pools)
  moreover from mv own have "mv = MemberList
      (memberEntries example_env example_body_members example_pool [''0xA1'', ''0xB2''])"
    by blast
  ultimately have b: "fst (GET \<lparr>poolId = Some (p_id example_pool), creator = None\<rparr> example_store)
       = (200, PoolWithDetails example_pool
            [createdActivity example_env example_body_members example_pool ''0xABC''
               [''0xA1'', ''0xB2'']]
            (MemberList
               (memberEntries example_env example_body_members example_pool [''0xA1'', ''0xB2''])))"
    using g by (simp add: example_store_activities readDataFile_def createdActivity_def)
  have post': "POST example_env (Inr (Some example_body)) empty_store
      = ((201, CreatedPool (example_pool\<lparr>p_members_count := 0, p_tx_hash := None\<rparr>)), ?stn)"
    by (rule POST_eqI) (rule example_POST_no_members)
  have st2: "readDataFile (pools_file ?stn) []
        = [example_pool\<lparr>p_members_count := 0, p_tx_hash := None\<rparr>]"
     "readDataFile (activities_file ?stn) [] = []"
     "readDataFile (members_file ?stn) Map.empty = Map.empty"
    using post' by (rule POST_201; simp add: example_body_def empty_store_def readDataFile_def)+
  have isin2: "p_id example_pool \<in> p_id ` set (readDataFile (pools_file ?stn) [])"
    by (simp add: st2)
  have none: "readDataFile (members_file ?stn) Map.empty (p_id example_pool) = None"
    by (simp add: st2)
  from GET_by_id [OF ne(2), of ?stn None] isin2
  obtain pl' mv' where pl': "pl' \<in> set (readDataFile (pools_file ?stn) [])"
    and g': "fst (GET \<lparr>poolId = Some (p_id example_pool), creator = None\<rparr> ?stn) =
          (200, PoolWithDetails pl'
             (filter (\<lambda>a. a_pool_id a = p_id example_pool)
                (readDataFile (activities_file ?stn) []))
             mv')"
    and mv': "readDataFile (members_file ?stn) Map.empty (p_id example_pool) = None \<and>
              p_id example_pool \<notin> set Object_prototype \<longrightarrow> mv' = MemberList []"
    by blast
  from pl' have "pl' = example_pool\<lparr>p_members_count := 0, p_tx_hash := None\<rparr>"
    by (simp add: st2)
  moreover from mv' none ninh have "mv' = MemberList []" by blast
  ultimately have c: "fst (GET \<lparr>poolId = Some (p_id example_pool), creator = None\<rparr> ?stn)
       = (200, PoolWithDetails (example_pool\<lparr>p_members_count := 0, p_tx_hash := None\<rparr>) []
            (MemberList []))"
    using g' by (simp add: st2)
  from ne notin isin a b ninh c show ?thesis by simp
qed

text \<open>
  The claim as stated fails at the empty id: no stored pool has the empty string as its
  id, and \<open>GET\<close> with \<open>id=\<close> answers 200 with the list of all pools, not 404.
\<close>

theorem GET_empty_id_counterexample:
  "[] \<notin> p_id ` set (readDataFile (pools_file example_store) [])
   \<and> fst (GET \<lparr>poolId = Some [], creator = None\<rparr> example_store) = (200, Pools [example_pool])
   \<and> fst (GET \<lparr>poolId = Some [], creator = None\<rparr> example_store)
       \<noteq> (404, ErrorMsg ''Pool not found'')"
  by (simp add: GET_all example_store_pools readDataFile_def) (simp add: example_pool_def)

text \<open>
  C8, as amended. With no id in the request, two creator addresses that differ only in
  letter case (equal after \<open>toLowerCase\<close>) get the same answer from \<open>GET\<close> on every
  store. For a \<^emph>\<open>non-empty\<close> creator address the answer is 200 with exactly the stored
  pools whose \<open>creator_address\<close> equals it without regard to case, in stored order:
  the empty list, not an error, when none does. (The guard \<open>if (creator)\<close> takes an
  empty address for no address.)
\<close>

theorem GET_by_creator:
  assumes "pid = None \<or> pid = Some []"
  shows "(toLowerCase a = toLowerCase a' \<longrightarrow>
            GET \<lparr>poolId = pid, creator = Some a\<rparr> st = GET \<lparr>poolId = pid, creator = Some a'\<rparr> st)
       \<and> (a \<noteq> [] \<longrightarrow>
            fst (GET \<lparr>poolId = pid, creator = Some a\<rparr> st) =
              (200, Pools (filter (\<lambda>p. toLowerCase (p_creator_address p) = toLowerCase a)
                             (readDataFile (pools_file st) []))))
       \<and> (a \<noteq> [] \<and> (\<forall>p \<in> set (readDataFile (pools_file st) []).
                         toLowerCase (p_creator_address p) \<noteq> toLowerCase a) \<longrightarrow>
            fst (GET \<lparr>poolId = pid, creator = Some a\<rparr> st) = (200, Pools []))"
proof (intro conjI impI)
  assume eq: "toLowerCase a = toLowerCase a'"
  show "GET \<lparr>poolId = pid, creator = Some a\<rparr> st = GET \<lparr>poolId = pid, creator = Some a'\<rparr> st"
  proof (cases "a = []")
    case True
    with toLowerCase_eq_Nil [OF eq] have "a' = []" by simp
    with True show ?thesis by simp
  next
    case False
    with toLowerCase_eq_Nil [OF eq] have "a' \<noteq> []" by simp
    with False eq assms show ?thesis by (simp add: GET_creator)
  qed
next
  assume "a \<noteq> []"
  with assms show "fst (GET \<lparr>poolId = pid, creator = Some a\<rparr> st) =
              (200, Pools (filter (\<lambda>p. toLowerCase (p_creator_address p) = toLowerCase a)
                             (readDataFile (pools_file st) [])))"
    by (simp add: GET_creator)
next
  assume h: "a \<noteq> [] \<and> (\<forall>p \<in> set (readDataFile (pools_file st) []).
                         toLowerCase (p_creator_address p) \<noteq> toLowerCase a)"
  then have "filter (\<lambda>p. toLowerCase (p_creator_address p) = toLowerCase a)
                             (readDataFile (pools_file st) []) = []"
    by (simp add: filter_empty_conv)
  with h assms show "fst (GET \<lparr>poolId = pid, creator = Some a\<rparr> st) = (200, Pools [])"
    by (simp add: GET_creator)
qed

text \<open>
  On the example store, whose pool was created by \<open>0xABC\<close> and is stored under
  \<open>0xabc\<close>: both spellings find it, and \<open>0xabd\<close> finds nothing.
\<close>

theorem GET_by_creator_witness:
  "toLowerCase ''0xABC'' = toLowerCase ''0xabc''
   \<and> GET \<lparr>poolId = None, creator = Some ''0xABC''\<rparr> example_store
       = GET \<lparr>poolId = None, creator = Some ''0xabc''\<rparr> example_store
   \<and> fst (GET \<lparr>poolId = None, creator = Some ''0xABC''\<rparr> example_store)
       = (200, Pools [example_pool])
   \<and> list_all (\<lambda>p. toLowerCase (p_creator_address p) \<noteq> toLowerCase ''0xabd'')
        (readDataFile (pools_file example_store) [])
   \<and> fst (GET \<lparr>poolId = None, creator = Some ''0xabd''\<rparr> example_store) = (200, Pools [])"
proof -
  have lc: "toLowerCase ''0xABC'' = toLowerCase ''0xabc''"
    by (simp add: text_eval)
  have pools: "readDataFile (pools_file example_store) [] = [example_pool]"
    by (simp add: example_store_pools readDataFile_def)
  have none: "list_all (\<lambda>p. toLowerCase (p_creator_address p) \<noteq> toLowerCase ''0xabd'')
        (readDataFile (pools_file example_store) [])"
    by (simp add: pools example_pool_def text_eval)
  then have none': "\<forall>p \<in> set (readDataFile (pools_file example_store) []).
      toLowerCase (p_creator_address p) \<noteq> toLowerCase ''0xabd''"
    by (simp only: list_all_iff)
  have mine: "filter (\<lambda>p. toLowerCase (p_creator_address p) = toLowerCase ''0xABC'')
      (readDataFile (pools_file example_store) []) = [example_pool]"
    by (simp add: pools example_pool_def text_eval)
  note inst1 = GET_by_creator [of None "''0xABC''" "''0xabc''" example_store]
  note inst2 = GET_by_creator [of None "''0xabd''" "''0xabd''" example_store]
  from inst1 lc have a: "GET \<lparr>poolId = None, creator = Some ''0xABC''\<rparr> example_store
       = GET \<lparr>poolId = None, creator = Some ''0xabc''\<rparr> example_store"
    by blast
  from inst1 have "fst (GET \<lparr>poolId = None, creator = Some ''0xABC''\<rparr> example_store) =
      (200, Pools (filter (\<lambda>p. toLowerCase (p_creator_address p) = toLowerCase ''0xABC'')
                             (readDataFile (pools_file example_store) [])))"
    by simp
  with mine have b: "fst (GET \<lparr>poolId = None, creator = Some ''0xABC''\<rparr> example_store)
       = (200, Pools [example_pool])"
    by simp
  from inst2 none' have c: "fst (GET \<lparr>poolId = None, creator = Some ''0xabd''\<rparr> example_store)
      = (200, Pools [])"
    by simp
  from lc a b none c show ?thesis by simp
qed

text \<open>
  The claim as stated fails at the empty creator address: no stored pool has the empty
  string as its creator, and \<open>GET\<close> with \<open>creator=\<close> answers with all pools, not
  with the empty list.
\<close>

theorem GET_empty_creator_counterexample:
  "filter (\<lambda>p. toLowerCase (p_creator_address p) = toLowerCase [])
     (readDataFile (pools_file example_store) []) = []
   \<and> fst (GET \<lparr>poolId = None, creator = Some []\<rparr> example_store) = (200, Pools [example_pool])
   \<and> fst (GET \<lparr>poolId = None, creator = Some []\<rparr> example_store) \<noteq> (200, Pools [])"
  by (simp add: GET_all example_store_pools readDataFile_def)
     (simp add: example_pool_def toLowerCase_def)

text \<open>
  C6, as amended. The id of a created pool is \<open>generatePoolId\<close> of the clock reading and
  the random draw of its call and of nothing else (not of the request, not of the
  store). Two successful calls are assigned distinct ids exactly when their clock
  readings (in milliseconds) differ or the nine-character suffixes of their random draws
  differ: identical input does not make the ids equal, and nothing but the clock and the
  draw keeps them apart.
\<close>

theorem createPool_ids_distinct_iff:
  assumes "POST e1 (Inr (Some b1)) st1 = ((201, CreatedPool p1), st1')"
    and "POST e2 (Inr (Some b2)) st2 = ((201, CreatedPool p2), st2')"
  shows "p_id p1 = generatePoolId (clock e1 0) (random_text e1)
       \<and> p_id p2 = generatePoolId (clock e2 0) (random_text e2)
       \<and> (p_id p1 \<noteq> p_id p2 \<longleftrightarrow>
            clock e1 0 \<noteq> clock e2 0 \<or>
            substr 2 9 (random_text e1) \<noteq> substr 2 9 (random_text e2))"
proof -
  from assms(1) obtain nm1 ca1 pa1 where "newPool e1 b1 nm1 ca1 pa1 = Inr p1"
    by (rule POST_201)
  then have i1: "p_id p1 = generatePoolId (clock e1 0) (random_text e1)"
    by (simp add: newPool_fields)
  from assms(2) obtain nm2 ca2 pa2 where "newPool e2 b2 nm2 ca2 pa2 = Inr p2"
    by (rule POST_201)
  then have i2: "p_id p2 = generatePoolId (clock e2 0) (random_text e2)"
    by (simp add: newPool_fields)
  from i1 i2 show ?thesis
    by (auto simp: generatePoolId_eq_iff)
qed

text \<open>
  Two calls with identical input in the same millisecond, the second on the store the
  first has left, with different random draws: two pools, two ids.
\<close>

theorem createPool_ids_distinct_iff_witness:
  "POST example_env (Inr (Some example_body)) empty_store =
     ((201, CreatedPool (example_pool\<lparr>p_members_count := 0, p_tx_hash := None\<rparr>)),
      snd (POST example_env (Inr (Some example_body)) empty_store))
   \<and> POST (example_env\<lparr>random_text := ''0.9k2''\<rparr>) (Inr (Some example_body))
        (snd (POST example_env (Inr (Some example_body)) empty_store)) =
     ((201, CreatedPool (example_pool\<lparr>p_id := ''pool_1700000000000_9k2'',
                                      p_members_count := 0, p_tx_hash := None\<rparr>)),
      snd (POST (example_env\<lparr>random_text := ''0.9k2''\<rparr>) (Inr (Some example_body))
             (snd (POST example_env (Inr (Some example_body)) empty_store))))
   \<and> substr 2 9 (random_text example_env)
       \<noteq> substr 2 9 (random_text (example_env\<lparr>random_text := ''0.9k2''\<rparr>))
   \<and> p_id (example_pool\<lparr>p_members_count := 0, p_tx_hash := None\<rparr>)
       \<noteq> p_id (example_pool\<lparr>p_id := ''pool_1700000000000_9k2'',
                              p_members_count := 0, p_tx_hash := None\<rparr>)"
proof -
  let ?eb = "example_env\<lparr>random_text := ''0.9k2''\<rparr>"
  let ?sta = "snd (POST example_env (Inr (Some example_body)) empty_store)"
  let ?pA = "example_pool\<lparr>p_members_count := 0, p_tx_hash := None\<rparr>"
  let ?pB = "example_pool\<lparr>p_id := ''pool_1700000000000_9k2'',
                          p_members_count := 0, p_tx_hash := None\<rparr>"
  have A: "POST example_env (Inr (Some example_body)) empty_store = ((201, CreatedPool ?pA), ?sta)"
    by (rule POST_eqI) (rule example_POST_no_members)
  have "fst (POST ?eb (Inr (Some example_body)) empty_store) = (201, CreatedPool ?pB)"
    by (simp add: POST_def example_env_def example_body_def
        empty_store_def example_pool_def Let_def ensureDataDir_def truthy_def newPool_def
        toISOString_def or_default_def readDataFile_def text_eval)
  then have "fst (POST ?eb (Inr (Some example_body)) ?sta) = (201, CreatedPool ?pB)"
    using POST_response_independent [of ?eb example_body ?sta empty_store] by simp
  then have B: "POST ?eb (Inr (Some example_body)) ?sta = ((201, CreatedPool ?pB), snd (POST ?eb (Inr (Some example_body)) ?sta))"
    by (rule POST_eqI)
  have d: "substr 2 9 (random_text example_env) \<noteq> substr 2 9 (random_text ?eb)"
    by (simp add: example_env_def substr_def)
  from createPool_ids_distinct_iff [OF A B] d have "p_id ?pA \<noteq> p_id ?pB"
    by blast
  with A B d show ?thesis by simp
qed

text \<open>
  The claim as stated fails when two calls read the same millisecond and draw the same
  random number: both succeed, both pools get the same id, and the store then holds two
  pools of that id.
\<close>

theorem createPool_same_id_counterexample:
  "fst (POST example_env (Inr (Some example_body)) empty_store) =
     (201, CreatedPool (example_pool\<lparr>p_members_count := 0, p_tx_hash := None\<rparr>))
   \<and> fst (POST example_env (Inr (Some example_body)) (snd (POST example_env (Inr (Some example_body)) empty_store))) =
     (201, CreatedPool (example_pool\<lparr>p_members_count := 0, p_tx_hash := None\<rparr>))
   \<and> map p_id (readDataFile (pools_file
        (snd (POST example_env (Inr (Some example_body)) (snd (POST example_env (Inr (Some example_body)) empty_store))))) [])
       = [''pool_1700000000000_4fzyo82mv'', ''pool_1700000000000_4fzyo82mv'']"
proof -
  let ?sta = "snd (POST example_env (Inr (Some example_body)) empty_store)"
  let ?stb = "snd (POST example_env (Inr (Some example_body)) ?sta)"
  let ?pA = "example_pool\<lparr>p_members_count := 0, p_tx_hash := None\<rparr>"
  have A: "POST example_env (Inr (Some example_body)) empty_store = ((201, CreatedPool ?pA), ?sta)"
    by (rule POST_eqI) (rule example_POST_no_members)
  have B: "POST example_env (Inr (Some example_body)) ?sta = ((201, CreatedPool ?pA), ?stb)"
    by (rule POST_eqI) (rule example_POST_no_members)
  from A have p1: "pools_file ?sta = Some [?pA]"
    by (rule POST_201) (simp add: empty_store_def readDataFile_def)
  from B have "pools_file ?stb = Some (readDataFile (pools_file ?sta) [] @ [?pA])"
    by (rule POST_201)
  with p1 have "map p_id (readDataFile (pools_file ?stb) [])
      = [''pool_1700000000000_4fzyo82mv'', ''pool_1700000000000_4fzyo82mv'']"
    by (simp add: readDataFile_def example_pool_def)
  then show ?thesis
    by (simp add: example_POST_no_members)
qed



text \<open>
  C9, as amended. When a create request is accepted and \<^emph>\<open>no pool already in the store
  has the new id\<close>, reading the pool back by its id on the store the call has left gives
  200 with the very record the call returned, every field equal. Its fields are those of
  the request (the creator address in lower case, the defaults filled in), and the
  server-computed ones are present and well-formed: the id is \<open>pool_\<close>, the decimal
  clock reading, \<open>_\<close> and at most nine characters; \<open>created_at\<close> is the time stamp of
  a clock reading; \<open>next_payout\<close> is a time stamp within the range of \<open>Date\<close>.
\<close>

theorem POST_then_GET_roundtrip:
  assumes "POST e (Inr (Some b)) st = ((201, CreatedPool p), st')"
    and "\<forall>q \<in> set (readDataFile (pools_file st) []). p_id q \<noteq> p_id p"
  shows "GET \<lparr>poolId = Some (p_id p), creator = cr\<rparr> st' =
           ((200, PoolWithDetails p
                    (filter (\<lambda>a. a_pool_id a = p_id p) (readDataFile (activities_file st') []))
                    (MemberList (case readDataFile (members_file st') Map.empty (p_id p) of
                                   None \<Rightarrow> [] | Some ms \<Rightarrow> ms))),
            st')
       \<and> name b = Some (p_name p)
       \<and> p_description p = description b
       \<and> (\<exists>ca. creatorAddress b = Some ca \<and> p_creator_address p = toLowerCase ca)
       \<and> poolAddress b = Some (p_contract_address p)
       \<and> p_type p = or_default (poolType b) ''rotational''
       \<and> p_status p = ''active''
       \<and> p_token_address p =
           or_default (tokenAddress b) (or_default (NEXT_PUBLIC_TOKEN_ADDRESS e) [])
       \<and> p_members_count p = (case members b of None \<Rightarrow> 0 | Some ms \<Rightarrow> length ms)
       \<and> p_total_saved p = 0 \<and> p_progress p = 0
       \<and> p_frequency p = Some (or_default (frequency b) ''weekly'')
       \<and> p_tx_hash p = truthy (txHash b)
       \<and> (\<exists>sfx. p_id p = ''pool_'' @ decimal (clock e 0) @ ''_'' @ sfx \<and> length sfx \<le> 9)
       \<and> p_created_at p = ISO (int (clock e 2))
       \<and> (\<exists>t. p_next_payout p = Some (ISO t) \<and> \<bar>t\<bar> \<le> 8640000000000000
              \<and> t = int (clock e 1) +
                    (case roundDuration b of None \<Rightarrow> 604800
                     | Some d \<Rightarrow> if d = 0 then 604800 else d) * 1000)"
proof -
  from assms(1) obtain nm ca pa where
    t: "truthy (name b) = Some nm" "truthy (creatorAddress b) = Some ca"
       "truthy (poolAddress b) = Some pa"
    and np: "newPool e b nm ca pa = Inr p"
    and pools: "pools_file st' = Some (readDataFile (pools_file st) [] @ [p])"
    and dir: "data_dir st' = True"
    by (rule POST_201)
  note f = newPool_fields [OF np]
  have idne: "p_id p \<noteq> []"
    by (simp add: f(1) generatePoolId_nonempty)
  have "find (\<lambda>q. p_id q = p_id p) (readDataFile (pools_file st) [] @ [p]) = Some p"
    using assms(2) by (rule find_appended_fresh)
  with pools have fnd: "find (\<lambda>q. p_id q = p_id p) (readDataFile (pools_file st') []) = Some p"
    by (simp add: readDataFile_def)
  have ninh: "p_id p \<notin> set Object_prototype"
    by (simp add: f(1) generatePoolId_not_inherited)
  from dir have "ensureDataDir st' = st'" by (simp add: ensureDataDir_idem)
  with fnd have get: "GET \<lparr>poolId = Some (p_id p), creator = cr\<rparr> st' =
           ((200, PoolWithDetails p
                    (filter (\<lambda>a. a_pool_id a = p_id p) (readDataFile (activities_file st') []))
                    (MemberList (case readDataFile (members_file st') Map.empty (p_id p) of
                                   None \<Rightarrow> [] | Some ms \<Rightarrow> ms))),
            st')"
    by (simp add: GET_id_members [OF idne ninh])
  from t have inp: "name b = Some nm" "creatorAddress b = Some ca" "poolAddress b = Some pa"
    by (simp_all add: truthy_Some_iff)
  have idform: "\<exists>sfx. p_id p = ''pool_'' @ decimal (clock e 0) @ ''_'' @ sfx \<and> length sfx \<le> 9"
    using substr_length [of "random_text e"] by (auto simp: f(1) generatePoolId_def)
  have payout: "\<exists>t. p_next_payout p = Some (ISO t) \<and> \<bar>t\<bar> \<le> 8640000000000000
              \<and> t = int (clock e 1) +
                    (case roundDuration b of None \<Rightarrow> 604800
                     | Some d \<Rightarrow> if d = 0 then 604800 else d) * 1000"
    using f(13) newPool_Inr(2) [OF np] by blast
  have crea: "\<exists>ca. creatorAddress b = Some ca \<and> p_creator_address p = toLowerCase ca"
    using inp(2) f(6) by blast
  from get inp f crea idform payout show ?thesis
    by simp
qed

text \<open>
  The example request with two members, on a store that already holds another pool.
\<close>

theorem POST_then_GET_roundtrip_witness:
  "POST example_env (Inr (Some example_body_members))
        (snd (POST (example_env\<lparr>random_text := ''0.9k2''\<rparr>) (Inr (Some example_body)) empty_store))
     = ((201, CreatedPool example_pool),
        snd (POST example_env (Inr (Some example_body_members))
              (snd (POST (example_env\<lparr>random_text := ''0.9k2''\<rparr>) (Inr (Some example_body)) empty_store))))
   \<and> map p_id (readDataFile (pools_file
         (snd (POST (example_env\<lparr>random_text := ''0.9k2''\<rparr>) (Inr (Some example_body)) empty_store))) [])
       = [''pool_1700000000000_9k2'']
   \<and> list_all (\<lambda>q. p_id q \<noteq> p_id example_pool)
        (readDataFile (pools_file
          (snd (POST (example_env\<lparr>random_text := ''0.9k2''\<rparr>) (Inr (Some example_body)) empty_store))) [])
   \<and> fst (GET \<lparr>poolId = Some (p_id example_pool), creator = None\<rparr>
        (snd (POST example_env (Inr (Some example_body_members))
              (snd (POST (example_env\<lparr>random_text := ''0.9k2''\<rparr>) (Inr (Some example_body)) empty_store)))))
       = (200, PoolWithDetails example_pool
            [createdActivity example_env example_body_members example_pool ''0xABC''
               [''0xA1'', ''0xB2'']]
            (MemberList
               (memberEntries example_env example_body_members example_pool [''0xA1'', ''0xB2''])))
   \<and> name example_body_members = Some (p_name example_pool)
   \<and> p_creator_address example_pool = toLowerCase ''0xABC''"
proof -
  let ?ea = "example_env\<lparr>random_text := ''0.9k2''\<rparr>"
  let ?pz = "example_pool\<lparr>p_id := ''pool_1700000000000_9k2'',
                          p_members_count := 0, p_tx_hash := None\<rparr>"
  let ?sta = "snd (POST ?ea (Inr (Some example_body)) empty_store)"
  let ?stb = "snd (POST example_env (Inr (Some example_body_members)) ?sta)"
  have "fst (POST ?ea (Inr (Some example_body)) empty_store) = (201, CreatedPool ?pz)"
    by (simp add: POST_def example_env_def example_body_def
        empty_store_def example_pool_def Let_def ensureDataDir_def truthy_def newPool_def
        toISOString_def or_default_def readDataFile_def text_eval)
  then have A: "POST ?ea (Inr (Some example_body)) empty_store = ((201, CreatedPool ?pz), ?sta)"
    by (rule POST_eqI)
  have mb: "members example_body = None \<or> members example_body = Some []"
    by (simp add: example_body_def)
  have e0: "readDataFile (pools_file empty_store) [] = []"
    "readDataFile (activities_file empty_store) [] = []"
    "readDataFile (members_file empty_store) Map.empty = Map.empty"
    by (simp_all add: empty_store_def readDataFile_def)
  have st1: "readDataFile (pools_file ?sta) [] = [?pz]"
    "readDataFile (activities_file ?sta) [] = []"
    "readDataFile (members_file ?sta) Map.empty = Map.empty"
    using POST_201_pools [OF A] POST_201_no_members [OF A mb] by (simp_all add: e0)
  have "fst (POST example_env (Inr (Some example_body_members)) ?sta) = (201, CreatedPool example_pool)"
    using POST_response_independent [of example_env example_body_members ?sta empty_store]
    by (simp add: example_POST)
  then have B: "POST example_env (Inr (Some example_body_members)) ?sta = ((201, CreatedPool example_pool), ?stb)"
    by (rule POST_eqI)
  have ids: "map p_id (readDataFile (pools_file ?sta) []) = [''pool_1700000000000_9k2'']"
    by (simp add: st1)
  have fresh: "list_all (\<lambda>q. p_id q \<noteq> p_id example_pool) (readDataFile (pools_file ?sta) [])"
    by (simp add: st1 example_pool_def)
  then have fresh': "\<forall>q \<in> set (readDataFile (pools_file ?sta) []). p_id q \<noteq> p_id example_pool"
    by (simp only: list_all_iff)
  have mm: "members example_body_members = Some [''0xA1'', ''0xB2'']"
    "creatorAddress example_body_members = Some ''0xABC''"
    by (simp_all add: example_body_members_def example_body_def)
  have st2: "readDataFile (activities_file ?stb) []
        = [createdActivity example_env example_body_members example_pool ''0xABC''
             [''0xA1'', ''0xB2'']]"
      "readDataFile (members_file ?stb) Map.empty (p_id example_pool)
        = Some (memberEntries example_env example_body_members example_pool [''0xA1'', ''0xB2''])"
    using POST_201_members [OF B mm(1) _ mm(2)] by (simp_all add: st1)
  note rt = POST_then_GET_roundtrip [OF B fresh', of None]
  from rt have "fst (GET \<lparr>poolId = Some (p_id example_pool), creator = None\<rparr> ?stb)
      = (200, PoolWithDetails example_pool
           (filter (\<lambda>a. a_pool_id a = p_id example_pool) (readDataFile (activities_file ?stb) []))
           (MemberList (case readDataFile (members_file ?stb) Map.empty (p_id example_pool) of
                          None \<Rightarrow> [] | Some ms \<Rightarrow> ms)))"
    by simp
  then have g: "fst (GET \<lparr>poolId = Some (p_id example_pool), creator = None\<rparr> ?stb)
       = (200, PoolWithDetails example_pool
            [createdActivity example_env example_body_members example_pool ''0xABC''
               [''0xA1'', ''0xB2'']]
            (MemberList
               (memberEntries example_env example_body_members example_pool [''0xA1'', ''0xB2''])))"
    by (simp add: st2) (simp add: createdActivity_def)
  from rt have n: "name example_body_members = Some (p_name example_pool)"
    by blast
  have l: "p_creator_address example_pool = toLowerCase ''0xABC''"
    by (simp add: example_pool_def text_eval)
  from B ids fresh g n l show ?thesis by simp
qed

text \<open>
  The claim as stated fails when the new id is already in the store (same millisecond,
  same random draw as an earlier call): the request for a pool named \<open>Other\<close> is
  accepted, and reading its id back returns the older pool \<open>Test\<close>, since \<open>find\<close>
  stops at the first pool of that id.
\<close>

theorem POST_then_GET_collision_counterexample:
  "fst (POST example_env (Inr (Some (example_body\<lparr>name := Some ''Other''\<rparr>))) example_store)
     = (201, CreatedPool (example_pool\<lparr>p_name := ''Other'', p_members_count := 0,
                                       p_tx_hash := None\<rparr>))
   \<and> fst (GET \<lparr>poolId = Some (p_id (example_pool\<lparr>p_name := ''Other'', p_members_count := 0,
                                                   p_tx_hash := None\<rparr>)),
               creator = None\<rparr>
           (snd (POST example_env (Inr (Some (example_body\<lparr>name := Some ''Other''\<rparr>))) example_store)))
     = (200, PoolWithDetails example_pool
            [createdActivity example_env example_body_members example_pool ''0xABC''
               [''0xA1'', ''0xB2'']]
            (MemberList
               (memberEntries example_env example_body_members example_pool [''0xA1'', ''0xB2''])))
   \<and> p_name example_pool
       \<noteq> p_name (example_pool\<lparr>p_name := ''Other'', p_members_count := 0, p_tx_hash := None\<rparr>)"
proof -
  let ?b = "example_body\<lparr>name := Some ''Other''\<rparr>"
  let ?pC = "example_pool\<lparr>p_name := ''Other'', p_members_count := 0, p_tx_hash := None\<rparr>"
  let ?stb = "snd (POST example_env (Inr (Some ?b)) example_store)"
  have "fst (POST example_env (Inr (Some ?b)) empty_store) = (201, CreatedPool ?pC)"
    by (simp add: POST_def example_env_def example_body_def
        empty_store_def example_pool_def Let_def ensureDataDir_def truthy_def newPool_def
        toISOString_def or_default_def readDataFile_def text_eval)
  then have r: "fst (POST example_env (Inr (Some ?b)) example_store) = (201, CreatedPool ?pC)"
    using POST_response_independent [of example_env ?b example_store empty_store] by simp
  then have B: "POST example_env (Inr (Some ?b)) example_store = ((201, CreatedPool ?pC), ?stb)"
    by (rule POST_eqI)
  from B have st2: "pools_file ?stb = Some [example_pool, ?pC]"
     "activities_file ?stb = activities_file example_store"
     "members_file ?stb = members_file example_store"
     "data_dir ?stb = True"
    by (rule POST_201; simp add: example_store_pools example_store_activities
          example_store_members readDataFile_def example_body_def)+
  have idne: "p_id example_pool \<noteq> []" by (simp add: example_pool_def)
  have "fst (GET \<lparr>poolId = Some (p_id example_pool), creator = None\<rparr> ?stb)
     = (200, PoolWithDetails example_pool
            [createdActivity example_env example_body_members example_pool ''0xABC''
               [''0xA1'', ''0xB2'']]
            (MemberList
               (memberEntries example_env example_body_members example_pool [''0xA1'', ''0xB2''])))"
    by (simp add: GET_id [OF idne] st2 readDataFile_def example_store_activities
          example_store_members)
       (simp add: createdActivity_def)
  moreover have "p_name example_pool \<noteq> p_name ?pC"
    by (simp add: example_pool_def)
  ultimately show ?thesis using r by simp
qed

text \<open>
  C10, as amended. After an accepted create request with a non-empty members list, the
  member list stored under the new id has one record per address, and every record has
  the same \<open>contribution_amount\<close>: what \<open>parseFloat\<close> makes of the supplied text (of
  \<open>'0'\<close> when it is absent or empty), as JSON writes it. It is 0 when the text is
  absent or empty. When the text is a plain string of digits it is the double nearest to
  the number written (\<open>null\<close> when that is an infinity), which is the number itself
  when the number is at most \<open>2^53\<close>. And whenever the text does not start, after
  white space, with a minus sign, it is \<open>null\<close> or a non-negative number. Nothing
  makes it non-negative for every text.
\<close>

theorem POST_member_contribution_amount:
  assumes "POST e (Inr (Some b)) st = ((201, CreatedPool p), st')"
    and "members b = Some ms" and "ms \<noteq> []"
  shows "\<exists>entries.
           readDataFile (members_file st') Map.empty (p_id p) = Some entries
         \<and> length entries = length ms
         \<and> (\<forall>m \<in> set entries.
               m_contribution_amount m =
                 JSON_number (parseFloat (or_default (contributionAmount b) ''0''))
             \<and> (contributionAmount b = None \<or> contributionAmount b = Some [] \<longrightarrow>
                  m_contribution_amount m = Some 0)
             \<and> (\<forall>s. contributionAmount b = Some s \<and> s \<noteq> [] \<and> list_all is_digit s \<longrightarrow>
                  m_contribution_amount m = JSON_number (to_double (of_nat (digits_value s))))
             \<and> (\<forall>s. contributionAmount b = Some s \<and> s \<noteq> [] \<and> list_all is_digit s \<and>
                     digits_value s \<le> 2 ^ 53 \<longrightarrow>
                  m_contribution_amount m = Some (of_nat (digits_value s)))
             \<and> (\<forall>s q. contributionAmount b = Some s \<and> \<not> leading_minus s \<and>
                       m_contribution_amount m = Some q \<longrightarrow> 0 \<le> q))"
proof -
  from assms(1) have "members_file st' = Some
       (case members b of
          None \<Rightarrow> readDataFile (members_file st) Map.empty
        | Some ms \<Rightarrow>
            if ms = [] then readDataFile (members_file st) Map.empty
            else (readDataFile (members_file st) Map.empty)
                   (p_id p \<mapsto> memberEntries e b p ms))"
    by (rule POST_201)
  with assms(2,3) have
    look: "readDataFile (members_file st') Map.empty (p_id p) = Some (memberEntries e b p ms)"
    by (simp add: readDataFile_def)
  have each: "m_contribution_amount m =
                 JSON_number (parseFloat (or_default (contributionAmount b) ''0''))
             \<and> (contributionAmount b = None \<or> contributionAmount b = Some [] \<longrightarrow>
                  m_contribution_amount m = Some 0)
             \<and> (\<forall>s. contributionAmount b = Some s \<and> s \<noteq> [] \<and> list_all is_digit s \<longrightarrow>
                  m_contribution_amount m = JSON_number (to_double (of_nat (digits_value s))))
             \<and> (\<forall>s. contributionAmount b = Some s \<and> s \<noteq> [] \<and> list_all is_digit s \<and>
                     digits_value s \<le> 2 ^ 53 \<longrightarrow>
                  m_contribution_amount m = Some (of_nat (digits_value s)))
             \<and> (\<forall>s q. contributionAmount b = Some s \<and> \<not> leading_minus s \<and>
                       m_contribution_amount m = Some q \<longrightarrow> 0 \<le> q)"
    if "m \<in> set (memberEntries e b p ms)" for m
  proof -
    from that have am: "m_contribution_amount m =
        JSON_number (parseFloat (or_default (contributionAmount b) ''0''))"
      by (rule memberEntries_amount)
    have z: "contributionAmount b = None \<or> contributionAmount b = Some [] \<longrightarrow>
                  m_contribution_amount m = Some 0"
      using am by (auto simp: or_default_absent parseFloat_zero)
    have r: "\<forall>s. contributionAmount b = Some s \<and> s \<noteq> [] \<and> list_all is_digit s \<longrightarrow>
                  m_contribution_amount m = JSON_number (to_double (of_nat (digits_value s)))"
      using am by (auto simp: or_default_present parseFloat_digits)
    have d: "\<forall>s. contributionAmount b = Some s \<and> s \<noteq> [] \<and> list_all is_digit s \<and>
                     digits_value s \<le> 2 ^ 53 \<longrightarrow>
                  m_contribution_amount m = Some (of_nat (digits_value s))"
      using am by (auto simp: or_default_present JSON_number_digits)
    have n: "\<forall>s q. contributionAmount b = Some s \<and> \<not> leading_minus s \<and>
                       m_contribution_amount m = Some q \<longrightarrow> 0 \<le> q"
      using am amount_nonneg [of b] by auto
    from am z r d n show ?thesis by blast
  qed
  with look memberEntries_length [of e b p ms] show ?thesis
    by blast
qed

text \<open>
  The example request with the amount \<open>0250\<close> stores 250 for both members; without
  an amount it stores 0.
\<close>

theorem POST_member_contribution_amount_witness:
  "POST example_env (Inr (Some (example_body_members\<lparr>contributionAmount := Some ''0250''\<rparr>))) empty_store
     = ((201, CreatedPool example_pool),
        snd (POST example_env (Inr (Some (example_body_members\<lparr>contributionAmount := Some ''0250''\<rparr>)))
               empty_store))
   \<and> members (example_body_members\<lparr>contributionAmount := Some ''0250''\<rparr>)
       = Some [''0xA1'', ''0xB2'']
   \<and> list_all is_digit ''0250'' \<and> digits_value ''0250'' \<le> 2 ^ 53 \<and> \<not> leading_minus ''0250''
   \<and> map_option (map m_contribution_amount)
        (readDataFile (members_file
           (snd (POST example_env (Inr (Some (example_body_members\<lparr>contributionAmount := Some ''0250''\<rparr>)))
                  empty_store))) Map.empty (p_id example_pool))
       = Some [Some 250, Some 250]
   \<and> map_option (map m_contribution_amount)
        (readDataFile (members_file
           (snd (POST example_env (Inr (Some (example_body_members\<lparr>contributionAmount := None\<rparr>)))
                  empty_store))) Map.empty (p_id example_pool))
       = Some [Some 0, Some 0]"
proof -
  let ?b = "example_body_members\<lparr>contributionAmount := Some ''0250''\<rparr>"
  let ?st = "snd (POST example_env (Inr (Some ?b)) empty_store)"
  let ?bn = "example_body_members\<lparr>contributionAmount := None\<rparr>"
  let ?stn = "snd (POST example_env (Inr (Some ?bn)) empty_store)"
  have A: "POST example_env (Inr (Some ?b)) empty_store = ((201, CreatedPool example_pool), ?st)"
    by (rule POST_eqI) (rule example_POST_amount)
  have A0: "POST example_env (Inr (Some ?bn)) empty_store = ((201, CreatedPool example_pool), ?stn)"
    by (rule POST_eqI) (rule example_POST_amount)
  have ms: "members ?b = Some [''0xA1'', ''0xB2'']" "members ?bn = Some [''0xA1'', ''0xB2'']"
    by (simp_all add: example_body_members_def)
  have ne: "[''0xA1'', ''0xB2''] \<noteq> []" by simp
  have dg: "list_all is_digit ''0250''" by (simp add: is_digit_def)
  have lm: "\<not> leading_minus ''0250''" by (simp add: leading_minus_def is_whitespace_def)
  have dv: "digits_value ''0250'' = 250" by (simp add: digits_value_def)
  from POST_member_contribution_amount [OF A ms(1) ne] obtain entries where
    en: "readDataFile (members_file ?st) Map.empty (p_id example_pool) = Some entries"
      "length entries = length [''0xA1'', ''0xB2'']"
    and am: "\<forall>m \<in> set entries. \<forall>s. contributionAmount ?b = Some s \<and> s \<noteq> [] \<and>
       list_all is_digit s \<and> digits_value s \<le> 2 ^ 53 \<longrightarrow>
       m_contribution_amount m = Some (of_nat (digits_value s))"
    by blast
  have pre: "contributionAmount ?b = Some ''0250'' \<and> ''0250'' \<noteq> [] \<and>
       list_all is_digit ''0250'' \<and> digits_value ''0250'' \<le> 2 ^ 53"
    by (simp add: is_digit_def dv)
  from am pre have "\<forall>m \<in> set entries.
      m_contribution_amount m = Some (of_nat (digits_value ''0250''))"
    by blast
  then have "\<forall>m \<in> set entries. m_contribution_amount m = Some 250"
    by (simp only: dv) simp
  with en(2) have "map m_contribution_amount entries = [Some 250, Some 250]"
    by (cases entries; simp) (rename_tac a r, case_tac r; simp)
  with en(1) have a: "map_option (map m_contribution_amount)
        (readDataFile (members_file ?st) Map.empty (p_id example_pool))
       = Some [Some 250, Some 250]"
    by simp
  from POST_member_contribution_amount [OF A0 ms(2) ne] obtain entries0 where
    en0: "readDataFile (members_file ?stn) Map.empty (p_id example_pool) = Some entries0"
      "length entries0 = length [''0xA1'', ''0xB2'']"
    and am0: "\<forall>m \<in> set entries0.
       contributionAmount ?bn = None \<or> contributionAmount ?bn = Some [] \<longrightarrow>
       m_contribution_amount m = Some 0"
    by blast
  from am0 have "\<forall>m \<in> set entries0. m_contribution_amount m = Some 0"
    by simp
  with en0(2) have "map m_contribution_amount entries0 = [Some 0, Some 0]"
    by (cases entries0; simp) (rename_tac a r, case_tac r; simp)
  with en0(1) have b: "map_option (map m_contribution_amount)
        (readDataFile (members_file ?stn) Map.empty (p_id example_pool))
       = Some [Some 0, Some 0]"
    by simp
  from pre have le: "digits_value ''0250'' \<le> 2 ^ 53" by blast
  from A ms(1) dg le lm a b show ?thesis by simp
qed

text \<open>
  The claim as stated fails at the amount \<open>-5\<close>: the request is accepted and both
  member records are written with \<open>contribution_amount = -5\<close>. At \<open>n/a\<close>
  \<open>parseFloat\<close> gives \<open>NaN\<close>, and the records are written with \<open>null\<close>.
\<close>

theorem POST_negative_contribution_counterexample:
  "fst (POST example_env (Inr (Some (example_body_members\<lparr>contributionAmount := Some ''-5''\<rparr>))) empty_store)
     = (201, CreatedPool example_pool)
   \<and> map_option (map m_contribution_amount)
        (readDataFile (members_file
           (snd (POST example_env (Inr (Some (example_body_members\<lparr>contributionAmount := Some ''-5''\<rparr>)))
                  empty_store))) Map.empty (p_id example_pool))
       = Some [Some (- 5), Some (- 5)]
   \<and> map_option (map m_contribution_amount)
        (readDataFile (members_file
           (snd (POST example_env (Inr (Some (example_body_members\<lparr>contributionAmount := Some ''n/a''\<rparr>)))
                  empty_store))) Map.empty (p_id example_pool))
       = Some [None, None]"
proof -
  let ?b = "example_body_members\<lparr>contributionAmount := Some ''-5''\<rparr>"
  let ?st = "snd (POST example_env (Inr (Some ?b)) empty_store)"
  let ?bx = "example_body_members\<lparr>contributionAmount := Some ''n/a''\<rparr>"
  let ?stx = "snd (POST example_env (Inr (Some ?bx)) empty_store)"
  have A: "POST example_env (Inr (Some ?b)) empty_store = ((201, CreatedPool example_pool), ?st)"
    by (rule POST_eqI) (rule example_POST_amount)
  have A1: "POST example_env (Inr (Some ?bx)) empty_store = ((201, CreatedPool example_pool), ?stx)"
    by (rule POST_eqI) (rule example_POST_amount)
  have ms: "members ?b = Some [''0xA1'', ''0xB2'']" "creatorAddress ?b = Some ''0xABC''"
     "members ?bx = Some [''0xA1'', ''0xB2'']" "creatorAddress ?bx = Some ''0xABC''"
    by (simp_all add: example_body_members_def example_body_def)
  have v: "JSON_number (parseFloat ''-5'') = Some (- 5)"
    by (simp add: parseFloat_minus_5 JSON_number_Num)
  have v1: "JSON_number (parseFloat ''n/a'') = None"
    by (simp add: parseFloat_not_a_number JSON_number_def)
  have a: "map_option (map m_contribution_amount)
        (readDataFile (members_file ?st) Map.empty (p_id example_pool))
       = Some [Some (- 5), Some (- 5)]"
    using POST_201_members(2) [OF A ms(1) _ ms(2)] v
    by (simp add: memberEntries_example_amounts or_default_def truthy_def)
  have b: "map_option (map m_contribution_amount)
        (readDataFile (members_file ?stx) Map.empty (p_id example_pool))
       = Some [None, None]"
    using POST_201_members(2) [OF A1 ms(3) _ ms(4)] v1
    by (simp add: memberEntries_example_amounts or_default_def truthy_def)
  from a b show ?thesis by (simp add: example_POST_amount)
qed

end
